theory Spec2Isabelle
  imports Main "HOL-Library.Sublist"
begin

section \<open>The verbose reporter of lib/reporters/verbose.js\<close>

text \<open>
  The reporter is a JavaScript class whose methods mutate \<^verbatim>\<open>this\<close> and write to
  \<^verbatim>\<open>this.stream\<close>. The embedding passes the reporter's state explicitly. A method
  that can throw returns an \<open>outcome\<close>: either it returned, or it threw, and in both
  cases the state it left behind (the stream keeps what was written before a throw).
\<close>

subsection \<open>Events and their payloads\<close>

datatype error = TypeError

text \<open>\<^verbatim>\<open>evt.err.source\<close>: a file and a line number.\<close>

record source_loc =
  src_file :: string
  src_line :: nat

text \<open>
  \<^verbatim>\<open>evt.err\<close>, a complete serialized error: its message, formatted text, stack and
  summary are strings. An \<^verbatim>\<open>err\<close> object that lacks one of them (\<^verbatim>\<open>err: {}\<close>) is
  outside the model. Only the source location may be absent.
\<close>

record serialized_error =
  source :: "source_loc option"
  avaAssertionError :: bool
  nonErrorObject :: bool
  message :: string
  formatted :: string
  stack :: string
  summary :: string

text \<open>Per-file statistics, the values of the \<^verbatim>\<open>stats.byFile\<close> map.\<close>

record file_stats =
  file_declaredTests :: nat
  file_remainingTests :: nat

text \<open>
  The \<^verbatim>\<open>stats\<close> snapshot carried by a stats event, complete: every counter and the
  \<^verbatim>\<open>byFile\<close> map are there. A stats object without \<^verbatim>\<open>byFile\<close> (\<^verbatim>\<open>stats: {}\<close>), on
  which \<^verbatim>\<open>this.stats.byFile.get\<close> of line 86 would throw, is outside the model.
\<close>

record run_stats =
  byFile :: "string \<rightharpoonup> file_stats"
  selectedTests :: nat
  failedHooks :: nat
  failedTests :: nat
  passedTests :: nat
  passedKnownFailingTests :: nat
  skippedTests :: nat
  todoTests :: nat
  unhandledRejections :: nat
  uncaughtExceptions :: nat
  remainingTests :: nat
  files :: nat
  finishedWorkers :: nat

text \<open>
  An event object. \<open>ref\<close> is the identity of the JavaScript object: the code compares
  events with \<^verbatim>\<open>!==\<close>, which compares references, not contents. The fields
  \<^verbatim>\<open>testFile\<close>, \<^verbatim>\<open>err\<close>, \<^verbatim>\<open>logs\<close>, \<^verbatim>\<open>duration\<close>, \<^verbatim>\<open>nonZeroExitCode\<close> and
  \<^verbatim>\<open>stats\<close> may be absent (\<open>None\<close> is \<^verbatim>\<open>undefined\<close>); a boolean flag is \<open>False\<close>
  when absent. Every other field is taken as present with the kind its case expects (a
  title, a signal and a chunk that are strings, a period that is a number), and a field
  that is present is complete. The model says nothing about payloads that are partial in
  any other way.
\<close>

record event =
  ref :: nat
  etype :: string
  testFile :: "string option"
  title :: string
  err :: "serialized_error option"
  knownFailing :: bool
  duration :: "int option"
  logs :: "string list option"
  skip :: bool
  todo :: bool
  period :: nat
  nonZeroExitCode :: "int option"
  signal :: string
  forcedExit :: bool
  chunk :: string
  evt_stats :: "run_stats option"

text \<open>The plan object passed to \<^verbatim>\<open>startRun\<close>. \<open>status\<close> identifies the event emitter.\<close>

record plan =
  plan_failFastEnabled :: bool
  plan_matching :: bool
  plan_previousFailures :: nat
  plan_files :: "string list"
  filePathPrefix :: string
  status :: nat
  runVector :: nat

subsection \<open>Collaborators outside the file\<close>

text \<open>
  The colour functions, the figures, the formatting helpers and the clock are required
  from other modules. They are parameters of the model: every theorem holds for every
  choice of them, as functions that return on every argument they are given here. The
  title prefixer of a run over several files (\<open>ext_prefixTitle\<close>, the repository's
  prefix-title module) is handed \<^verbatim>\<open>evt.testFile\<close> as it is; what that module does with
  an absent \<^verbatim>\<open>testFile\<close> is outside the model. \<open>path_relative f\<close> stands for
  \<^verbatim>\<open>path.relative('.', f)\<close>,
  \<open>codeExcerpt\<close> and \<open>improperUsageMessages_forError\<close> return the empty string for a
  falsy result, \<open>formatSerializedError\<close> returns the pair (printMessage, formatted), and
  \<open>localeTime\<close> is the reading of \<^verbatim>\<open>new Date().toLocaleTimeString(...)\<close> at the call.
\<close>

record env =
  colors_error :: "string \<Rightarrow> string"
  colors_stack :: "string \<Rightarrow> string"
  colors_errorStack :: "string \<Rightarrow> string"
  colors_skip :: "string \<Rightarrow> string"
  colors_todo :: "string \<Rightarrow> string"
  colors_title :: "string \<Rightarrow> string"
  colors_errorSource :: "string \<Rightarrow> string"
  colors_log :: "string \<Rightarrow> string"
  colors_information :: "string \<Rightarrow> string"
  colors_pass :: "string \<Rightarrow> string"
  colors_duration :: "string \<Rightarrow> string"
  chalk_gray_dim :: "string \<Rightarrow> string"
  figures_cross :: string
  figures_tick :: string
  figures_info :: string
  indentString :: "string \<Rightarrow> nat \<Rightarrow> string"
  prettyMs :: "int \<Rightarrow> string"
  trimOffNewlines :: "string \<Rightarrow> string"
  path_relative :: "string \<Rightarrow> string"
  codeExcerpt :: "source_loc \<Rightarrow> nat option \<Rightarrow> string"
  formatSerializedError :: "serialized_error \<Rightarrow> bool \<times> string"
  improperUsageMessages_forError :: "serialized_error \<Rightarrow> string"
  ext_prefixTitle :: "string \<Rightarrow> string option \<Rightarrow> string \<Rightarrow> string"
  localeTime :: string

text \<open>
  Modelled from the spec: \<^verbatim>\<open>plur\<close> (an npm dependency, not in the repository). The
  spec fixes its behaviour as "count 1 gives the singular, any other count the plural".
  \<open>plur3\<close> is the call with both forms given; \<open>plur\<close> is the call with the singular
  only, whose plural for the words used here (test, hook, known failure, rejection,
  exception, failure) appends an s.
\<close>

definition plur3 :: "string \<Rightarrow> string \<Rightarrow> nat \<Rightarrow> string" where
  "plur3 word plural count = (if count = 1 then word else plural)"

definition plur :: "string \<Rightarrow> nat \<Rightarrow> string" where
  "plur word count = plur3 word (word @ ''s'') count"

text \<open>A number inside a template literal: its decimal digits.\<close>

definition digit_char :: "nat \<Rightarrow> char" where
  "digit_char d = ''0123456789'' ! d"

fun show_nat :: "nat \<Rightarrow> string" where
  "show_nat n = (if n < 10 then [digit_char n] else show_nat (n div 10) @ [digit_char (n mod 10)])"

declare show_nat.simps [simp del]

definition show_int :: "int \<Rightarrow> string" where
  "show_int i = (if i < 0 then CHR ''-'' # show_nat (nat (- i)) else show_nat (nat i))"

text \<open>Truthiness of a string value and of an optional one.\<close>

definition truthy :: "string \<Rightarrow> bool" where
  "truthy s = (s \<noteq> [])"

definition truthy_opt :: "string option \<Rightarrow> bool" where
  "truthy_opt v = (case v of None \<Rightarrow> False | Some s \<Rightarrow> truthy s)"

definition newline :: string where
  "newline = [CHR 0x0A]"

subsection \<open>The reporter's state\<close>

text \<open>
  What \<^verbatim>\<open>plan.status.on\<close> and the function it returns do to the emitters, in order.
\<close>

datatype listener_action = Subscribed nat | Unsubscribed nat

text \<open>
  The fields of \<^verbatim>\<open>this\<close>, then what the methods act on outside it: the stream
  (\<open>written\<close>, the chunks passed to \<^verbatim>\<open>stream.write\<close> in order, and \<open>columns\<close>, its
  width) and the emitters (\<open>listener_log\<close>, the subscriptions made and removed).
  \<open>removePreviousListener\<close> holds the emitter whose subscription the stored function
  removes. Corking groups the writes of one call into one batch and changes no chunk, so
  it is not modelled.
\<close>

record reporter =
  watching :: bool
  failFastEnabled :: bool
  failures :: "event list"
  filesWithMissingAvaImports :: "string option set"
  knownFailures :: "event list"
  lastLineIsEmpty :: bool
  matching :: bool
  prefixTitle :: "string option \<Rightarrow> string \<Rightarrow> string"
  previousFailures :: nat
  removePreviousListener :: "nat option"
  stats :: "run_stats option"
  written :: "string list"
  columns :: "nat option"
  listener_log :: "listener_action list"

datatype outcome = Returned reporter | Threw error reporter

fun state_of :: "outcome \<Rightarrow> reporter" where
  "state_of (Returned st) = st"
| "state_of (Threw e st) = st"

fun returned :: "outcome \<Rightarrow> bool" where
  "returned (Returned st) = True"
| "returned (Threw e st) = False"

text \<open>Sequencing: a throw skips the rest.\<close>

fun and_then :: "outcome \<Rightarrow> (reporter \<Rightarrow> outcome) \<Rightarrow> outcome" where
  "and_then (Returned st) f = f st"
| "and_then (Threw e st) f = Threw e st"

subsection \<open>reset, writeLine, ensureEmptyLine, startRun\<close>

definition reset :: "reporter \<Rightarrow> reporter" where
  "reset st =
    (let st1 = (case removePreviousListener st of
                  None \<Rightarrow> st
                | Some h \<Rightarrow> st\<lparr>listener_log := listener_log st @ [Unsubscribed h]\<rparr>)
     in st1\<lparr>failFastEnabled := False,
            failures := [],
            filesWithMissingAvaImports := {},
            knownFailures := [],
            lastLineIsEmpty := False,
            matching := False,
            prefixTitle := (\<lambda>testFile title. title),
            previousFailures := 0,
            removePreviousListener := None,
            stats := None\<rparr>)"

text \<open>The constructor: the options, then \<^verbatim>\<open>reset\<close> on an object with no listener yet.\<close>

definition constructor :: "bool \<Rightarrow> nat option \<Rightarrow> reporter" where
  "constructor w cols =
     reset \<lparr>watching = w, failFastEnabled = False, failures = [],
            filesWithMissingAvaImports = {}, knownFailures = [], lastLineIsEmpty = False,
            matching = False, prefixTitle = (\<lambda>testFile title. title), previousFailures = 0,
            removePreviousListener = None, stats = None, written = [], columns = cols,
            listener_log = []\<rparr>"

text \<open>\<^verbatim>\<open>writeLine(str)\<close>; \<^verbatim>\<open>writeLine()\<close> is \<open>writeLine []\<close>, since \<^verbatim>\<open>str || ''\<close>.\<close>

definition writeLine :: "string \<Rightarrow> reporter \<Rightarrow> reporter" where
  "writeLine str st = st\<lparr>written := written st @ [str @ newline], lastLineIsEmpty := (str = [])\<rparr>"

definition ensureEmptyLine :: "reporter \<Rightarrow> reporter" where
  "ensureEmptyLine st = (if \<not> lastLineIsEmpty st then writeLine [] st else st)"

text \<open>\<^verbatim>\<open>stream.write(chunk)\<close>, used directly for worker output.\<close>

definition stream_write :: "string \<Rightarrow> reporter \<Rightarrow> reporter" where
  "stream_write c st = st\<lparr>written := written st @ [c]\<rparr>"

text \<open>The rule of a watch-mode rerun: U+2500 (three bytes in UTF-8), repeated.\<close>

definition rule_char :: string where
  "rule_char = [CHR 0xE2, CHR 0x94, CHR 0x80]"

definition stream_columns_or_80 :: "reporter \<Rightarrow> nat" where
  "stream_columns_or_80 st = (case columns st of None \<Rightarrow> 80 | Some c \<Rightarrow> if c = 0 then 80 else c)"

definition startRun :: "env \<Rightarrow> plan \<Rightarrow> reporter \<Rightarrow> reporter" where
  "startRun env p st =
    (let st1 = reset st;
         st2 = st1\<lparr>failFastEnabled := plan_failFastEnabled p,
                   matching := plan_matching p,
                   previousFailures := plan_previousFailures p\<rparr>;
         st3 = (if watching st2 \<or> length (plan_files p) > 1
                then st2\<lparr>prefixTitle := (\<lambda>testFile title. ext_prefixTitle env (filePathPrefix p) testFile title)\<rparr>
                else st2);
         st4 = st3\<lparr>removePreviousListener := Some (status p),
                   listener_log := listener_log st3 @ [Subscribed (status p)]\<rparr>;
         st5 = (if watching st4 \<and> runVector p > 1
                then writeLine (chalk_gray_dim env (concat (replicate (stream_columns_or_80 st4) rule_char))) st4
                else st4)
     in writeLine [] st5)"

subsection \<open>writeLogs, writeErr, writeTestSummary, writeFailure\<close>

text \<open>Consecutive \<^verbatim>\<open>writeLine\<close> calls, first to last.\<close>

definition writeLines :: "string list \<Rightarrow> reporter \<Rightarrow> reporter" where
  "writeLines ls st = fold writeLine ls st"

text \<open>
  \<^verbatim>\<open>logLines.replace(/^ {6}/, rep)\<close>: six spaces at the very start of the string are
  replaced, anything else is left as it is. The replacement is taken literally (the
  figure and the colour codes contain no \<^verbatim>\<open>$\<close> pattern).
\<close>

definition replace_leading6 :: "string \<Rightarrow> string \<Rightarrow> string" where
  "replace_leading6 rep s = (if take 6 s = ''      '' then rep @ drop 6 s else s)"

definition writeLogs :: "env \<Rightarrow> event \<Rightarrow> reporter \<Rightarrow> reporter" where
  "writeLogs env evt st =
    (case logs evt of
       None \<Rightarrow> st
     | Some ls \<Rightarrow>
         fold (\<lambda>log s.
                 let logLines = indentString env (colors_log env log) 6;
                     logLinesWithLeadingFigure =
                       replace_leading6 (''    '' @ colors_information env (figures_info env) @ '' '') logLines
                 in writeLine logLinesWithLeadingFigure s) ls st)"

definition writeErr :: "env \<Rightarrow> event \<Rightarrow> reporter \<Rightarrow> outcome" where
  "writeErr env evt st =
    (case err evt of
       None \<Rightarrow> Threw TypeError st
     | Some e \<Rightarrow>
        (let st1 = (case source e of
                      None \<Rightarrow> st
                    | Some src \<Rightarrow>
                       (let s1 = writeLine (''  '' @ colors_errorSource env (src_file src @ '':'' @ show_nat (src_line src))) st;
                            excerpt = codeExcerpt env src (columns st)
                        in if truthy excerpt
                           then writeLine (indentString env excerpt 2) (writeLine [] s1)
                           else s1));
             st2 = (if avaAssertionError e then
                      (let result = formatSerializedError env e;
                           s1 = (if fst result
                                 then writeLine (indentString env (message e) 2) (writeLine [] st1)
                                 else st1);
                           s2 = (if truthy (snd result)
                                 then writeLine (indentString env (snd result) 2) (writeLine [] s1)
                                 else s1);
                           msg = improperUsageMessages_forError env e
                       in if truthy msg
                          then writeLine (indentString env msg 2) (writeLine [] s2)
                          else s2)
                    else if nonErrorObject e then
                      writeLine (indentString env (trimOffNewlines env (formatted e)) 2) st1
                    else
                      writeLine (indentString env (message e) 2) (writeLine [] st1))
         in Returned
              (if truthy (stack e)
               then (if CHR 0x0A \<in> set (stack e)
                     then writeLine (indentString env (colors_errorStack env (stack e)) 2) (writeLine [] st2)
                     else st2)
               else st2)))"

definition is_failure_type :: "event \<Rightarrow> bool" where
  "is_failure_type evt = (etype evt = ''hook-failed'' \<or> etype evt = ''test-failed'')"

text \<open>The threshold comparison \<^verbatim>\<open>evt.duration > threshold\<close>; \<^verbatim>\<open>undefined > 100\<close> is false.\<close>

definition over_threshold :: "int option \<Rightarrow> bool" where
  "over_threshold d = (case d of None \<Rightarrow> False | Some ms \<Rightarrow> ms > 100)"

definition writeTestSummary :: "env \<Rightarrow> event \<Rightarrow> reporter \<Rightarrow> outcome" where
  "writeTestSummary env evt st =
    (if is_failure_type evt then
       (case err evt of
          None \<Rightarrow> Threw TypeError st
        | Some e \<Rightarrow>
            Returned (writeLogs env evt
              (writeLine (''  '' @ colors_error env (figures_cross env) @ '' '' @
                          prefixTitle st (testFile evt) (title evt) @ '' '' @
                          colors_error env (message e)) st)))
     else if knownFailing evt then
       Returned (writeLogs env evt
         (writeLine (''  '' @ colors_error env (figures_tick env) @ '' '' @
                     colors_error env (prefixTitle st (testFile evt) (title evt))) st))
     else
       (let duration_suffix =
              (if over_threshold (duration evt)
               then colors_duration env ('' ('' @ prettyMs env (the (duration evt)) @ '')'')
               else [])
        in Returned (writeLogs env evt
             (writeLine (''  '' @ colors_pass env (figures_tick env) @ '' '' @
                         prefixTitle st (testFile evt) (title evt) @ duration_suffix) st))))"

definition writeFailure :: "env \<Rightarrow> event \<Rightarrow> reporter \<Rightarrow> outcome" where
  "writeFailure env evt st =
     writeErr env evt
       (writeLine []
         (writeLogs env evt
           (writeLine (''  '' @ colors_title env (prefixTitle st (testFile evt) (title evt))) st)))"

subsection \<open>consumeStateChange\<close>

definition apostrophe :: string where
  "apostrophe = [CHR 0x27]"

definition double_quote :: string where
  "double_quote = [CHR 0x22]"

definition backtick :: string where
  "backtick = [CHR 0x60]"

text \<open>
  The title line and the body shared by the uncaught-exception and unhandled-rejection
  cases, which differ in the wording \<open>what\<close> only. \<^verbatim>\<open>path.relative\<close> throws a TypeError
  when its argument is not a string.
\<close>

definition uncaught :: "env \<Rightarrow> string \<Rightarrow> event \<Rightarrow> reporter \<Rightarrow> outcome" where
  "uncaught env what evt st =
    (let st1 = ensureEmptyLine st
     in case testFile evt of
          None \<Rightarrow> Threw TypeError st1
        | Some f \<Rightarrow>
            and_then
              (writeErr env evt
                (writeLine []
                  (writeLine (''  '' @ colors_title env (what @ '' in '' @ path_relative env f)) st1)))
              (\<lambda>st2. Returned (writeLine [] st2)))"

definition consumeStateChange :: "env \<Rightarrow> event \<Rightarrow> reporter \<Rightarrow> outcome" where
  "consumeStateChange env evt st =
    (let fileStats =
           (case stats st of
              None \<Rightarrow> None
            | Some s \<Rightarrow> if truthy_opt (testFile evt) then byFile s (the (testFile evt)) else None)
     in
     if etype evt = ''declared-test'' then Returned st
     else if etype evt = ''hook-failed'' then
       writeTestSummary env evt (st\<lparr>failures := failures st @ [evt]\<rparr>)
     else if etype evt = ''internal-error'' then
       (let st1 = (if truthy_opt (testFile evt)
                   then writeLine (colors_error env (''  '' @ figures_cross env @
                          '' Internal error when running '' @ path_relative env (the (testFile evt)))) st
                   else writeLine (colors_error env (''  '' @ figures_cross env @ '' Internal error'')) st)
        in case err evt of
             None \<Rightarrow> Threw TypeError st1
           | Some e \<Rightarrow>
               Returned
                 (writeLine (newline @ newline)
                   (writeLine (indentString env (colors_errorStack env (stack e)) 2)
                     (writeLine (indentString env (colors_stack env (summary e)) 2) st1))))
     else if etype evt = ''missing-ava-import'' then
       (let st1 = st\<lparr>filesWithMissingAvaImports := insert (testFile evt) (filesWithMissingAvaImports st)\<rparr>
        in case testFile evt of
             None \<Rightarrow> Threw TypeError st1
           | Some f \<Rightarrow>
               Returned (writeLine (colors_error env (''  '' @ figures_cross env @ '' No tests found in '' @
                           path_relative env f @ '', make sure to import '' @ double_quote @ ''ava'' @
                           double_quote @ '' at the top of your test file'')) st1))
     else if etype evt = ''selected-test'' then
       (if skip evt then
          Returned (writeLine (''  '' @ colors_skip env (''- '' @ prefixTitle st (testFile evt) (title evt))) st)
        else if todo evt then
          Returned (writeLine (''  '' @ colors_todo env (''- '' @ prefixTitle st (testFile evt) (title evt))) st)
        else Returned st)
     else if etype evt = ''stats'' then Returned (st\<lparr>stats := evt_stats evt\<rparr>)
     else if etype evt = ''test-failed'' then
       writeTestSummary env evt (st\<lparr>failures := failures st @ [evt]\<rparr>)
     else if etype evt = ''test-passed'' then
       writeTestSummary env evt
         (if knownFailing evt then st\<lparr>knownFailures := knownFailures st @ [evt]\<rparr> else st)
     else if etype evt = ''timeout'' then
       Returned (writeLine (colors_error env (''  '' @ figures_cross env @
                   '' Exited because no new tests completed within the last '' @
                   show_nat (period evt) @ ''ms of inactivity'')) st)
     else if etype evt = ''uncaught-exception'' then uncaught env ''Uncaught exception'' evt st
     else if etype evt = ''unhandled-rejection'' then uncaught env ''Unhandled rejection'' evt st
     else if etype evt = ''worker-failed'' then
       (if testFile evt \<notin> filesWithMissingAvaImports st then
          (case testFile evt of
             None \<Rightarrow> Threw TypeError st
           | Some f \<Rightarrow>
              (case nonZeroExitCode evt of
                 Some c \<Rightarrow>
                   if c \<noteq> 0 then
                     Returned (writeLine (colors_error env (''  '' @ figures_cross env @ '' '' @
                                 path_relative env f @ '' exited with a non-zero exit code: '' @ show_int c)) st)
                   else
                     Returned (writeLine (colors_error env (''  '' @ figures_cross env @ '' '' @
                                 path_relative env f @ '' exited due to '' @ signal evt)) st)
               | None \<Rightarrow>
                   Returned (writeLine (colors_error env (''  '' @ figures_cross env @ '' '' @
                               path_relative env f @ '' exited due to '' @ signal evt)) st)))
        else Returned st)
     else if etype evt = ''worker-finished'' then
       (if \<not> forcedExit evt \<and> testFile evt \<notin> filesWithMissingAvaImports st then
          (case fileStats of
             None \<Rightarrow> Threw TypeError st
           | Some fs \<Rightarrow>
               if file_declaredTests fs = 0 then
                 Returned (writeLine (colors_error env (''  '' @ figures_cross env @ '' No tests found in '' @
                             path_relative env (the (testFile evt)))) st)
               else if \<not> failFastEnabled st \<and> file_remainingTests fs > 0 then
                 Returned (writeLine (colors_error env (''  '' @ figures_cross env @ '' '' @
                             show_nat (file_remainingTests fs) @ '' '' @
                             plur ''test'' (file_remainingTests fs) @ '' remaining in '' @
                             path_relative env (the (testFile evt)))) st)
               else Returned st)
        else Returned st)
     else if etype evt = ''worker-stderr'' \<or> etype evt = ''worker-stdout'' then
       Returned (stream_write (chunk evt) st)
     else Returned st)"

text \<open>
  The events of a run, consumed one at a time in arrival order. The emitter calls the
  listener for each; a throw of the listener ends the feed.
\<close>

fun consumeAll :: "env \<Rightarrow> event list \<Rightarrow> reporter \<Rightarrow> outcome" where
  "consumeAll env [] st = Returned st"
| "consumeAll env (evt # evts) st = and_then (consumeStateChange env evt st) (consumeAll env evts)"

subsection \<open>endRun\<close>

text \<open>
  Lines 266 to 301: the blank line and the count lines. The function returns the
  arguments of the \<^verbatim>\<open>writeLine\<close> calls in source order; a call whose \<^verbatim>\<open>if\<close> is false
  contributes no line. \<open>firstLinePostfix\<close> is threaded as the source reassigns it.
\<close>

definition endRun_counts :: "env \<Rightarrow> run_stats \<Rightarrow> reporter \<Rightarrow> string list" where
  "endRun_counts env s st =
    (let firstLinePostfix0 =
           (if watching st then '' '' @ chalk_gray_dim env (''['' @ localeTime env @ '']'') else []);
         firstLinePostfix1 = (if failedHooks s > 0 then [] else firstLinePostfix0);
         firstLinePostfix2 = (if failedTests s > 0 then [] else firstLinePostfix1)
     in [[]] @
        (if failedHooks s > 0
         then [''  '' @ colors_error env (show_nat (failedHooks s) @ '' '' @
                 plur ''hook'' (failedHooks s) @ '' failed'') @ firstLinePostfix0]
         else []) @
        (if failedTests s > 0
         then [''  '' @ colors_error env (show_nat (failedTests s) @ '' '' @
                 plur ''test'' (failedTests s) @ '' failed'') @ firstLinePostfix1]
         else []) @
        (if failedHooks s = 0 \<and> failedTests s = 0 \<and> passedTests s > 0
         then [''  '' @ colors_pass env (show_nat (passedTests s) @ '' '' @
                 plur ''test'' (passedTests s) @ '' passed'') @ firstLinePostfix2]
         else []) @
        (if passedKnownFailingTests s > 0
         then [''  '' @ colors_error env (show_nat (passedKnownFailingTests s) @ '' '' @
                 plur ''known failure'' (passedKnownFailingTests s))]
         else []) @
        (if skippedTests s > 0
         then [''  '' @ colors_skip env (show_nat (skippedTests s) @ '' '' @
                 plur ''test'' (skippedTests s) @ '' skipped'')]
         else []) @
        (if todoTests s > 0
         then [''  '' @ colors_todo env (show_nat (todoTests s) @ '' '' @
                 plur ''test'' (todoTests s) @ '' todo'')]
         else []) @
        (if unhandledRejections s > 0
         then [''  '' @ colors_error env (show_nat (unhandledRejections s) @
                 '' unhandled '' @ plur ''rejection'' (unhandledRejections s))]
         else []) @
        (if uncaughtExceptions s > 0
         then [''  '' @ colors_error env (show_nat (uncaughtExceptions s) @
                 '' uncaught '' @ plur ''exception'' (uncaughtExceptions s))]
         else []) @
        (if previousFailures st > 0
         then [''  '' @ colors_error env (show_nat (previousFailures st) @ '' previous '' @
                 plur ''failure'' (previousFailures st) @ '' in test files that were not rerun'')]
         else []))"

text \<open>Lines 303 to 308: the list of known failures.\<close>

definition endRun_knownFailures :: "env \<Rightarrow> run_stats \<Rightarrow> reporter \<Rightarrow> reporter" where
  "endRun_knownFailures env s st =
    (if passedKnownFailingTests s > 0
     then fold (\<lambda>evt. writeLine (''  '' @ colors_error env (prefixTitle st (testFile evt) (title evt))))
            (knownFailures st) (writeLine [] st)
     else st)"

definition shouldWriteFailFastDisclaimer :: "run_stats \<Rightarrow> reporter \<Rightarrow> bool" where
  "shouldWriteFailFastDisclaimer s st =
     (failFastEnabled st \<and> (remainingTests s > 0 \<or> files s > finishedWorkers s))"

text \<open>
  Lines 316 to 323: the loop over the failures. \<^verbatim>\<open>evt !== lastFailure\<close> compares the
  two references.
\<close>

fun writeFailures :: "env \<Rightarrow> event \<Rightarrow> bool \<Rightarrow> event list \<Rightarrow> reporter \<Rightarrow> outcome" where
  "writeFailures env lastFailure disclaimer [] st = Returned st"
| "writeFailures env lastFailure disclaimer (evt # evts) st =
     and_then (writeFailure env evt st)
       (\<lambda>st1. writeFailures env lastFailure disclaimer evts
                (if ref evt \<noteq> ref lastFailure \<or> disclaimer
                 then writeLine [] (writeLine [] (writeLine [] st1))
                 else st1))"

text \<open>Lines 312 to 324.\<close>

definition endRun_failures :: "env \<Rightarrow> run_stats \<Rightarrow> reporter \<Rightarrow> outcome" where
  "endRun_failures env s st =
    (if length (failures st) > 0
     then writeFailures env (last (failures st)) (shouldWriteFailFastDisclaimer s st)
            (failures st) (writeLine [] st)
     else Returned st)"

text \<open>Lines 327 to 340: the text \<^verbatim>\<open>remaining\<close> of the disclaimer.\<close>

definition remaining_text :: "run_stats \<Rightarrow> string" where
  "remaining_text s =
    (let remaining0 = [];
         remaining1 =
           (if remainingTests s > 0
            then (let r = remaining0 @ ''At least '' @ show_nat (remainingTests s) @ '' '' @
                            plur3 ''test was'' ''tests were'' (remainingTests s) @ '' skipped''
                  in if files s > finishedWorkers s then r @ '', as well as '' else r)
            else remaining0)
     in if files s > finishedWorkers s
        then (let skippedFileCount = files s - finishedWorkers s;
                  r = remaining1 @ show_nat skippedFileCount @ '' '' @
                        plur3 ''test file'' ''test files'' skippedFileCount
              in if remainingTests s = 0
                 then r @ '' '' @ plur3 ''was'' ''were'' skippedFileCount @ '' skipped''
                 else r)
        else remaining1)"

text \<open>Lines 326 to 342.\<close>

definition endRun_disclaimer :: "env \<Rightarrow> run_stats \<Rightarrow> reporter \<Rightarrow> reporter" where
  "endRun_disclaimer env s st =
    (if shouldWriteFailFastDisclaimer s st
     then writeLine (''  '' @ colors_information env
            (backtick @ ''--fail-fast'' @ backtick @ '' is on. '' @ remaining_text s @ ''.'')) st
     else st)"

definition endRun :: "env \<Rightarrow> reporter \<Rightarrow> outcome" where
  "endRun env st =
    (case stats st of
       None \<Rightarrow>
         Returned (writeLine []
           (writeLine (colors_error env (''  '' @ figures_cross env @ '' Couldn'' @ apostrophe @
                         ''t find any files to test'')) st))
     | Some s \<Rightarrow>
         if matching st \<and> selectedTests s = 0 then
           Returned (writeLine []
             (writeLine (colors_error env (''  '' @ figures_cross env @ '' Couldn'' @ apostrophe @
                           ''t find any matching tests'')) st))
         else
           and_then (endRun_failures env s
                       (endRun_knownFailures env s (writeLines (endRun_counts env s st) st)))
             (\<lambda>st1. Returned (writeLine [] (endRun_disclaimer env s st1))))"

text \<open>What a call appends to the stream: the chunks written after those already there.\<close>

definition emitted :: "(reporter \<Rightarrow> outcome) \<Rightarrow> reporter \<Rightarrow> string list" where
  "emitted f st = drop (length (written st)) (written (state_of (f st)))"

section \<open>Notions used to state the properties\<close>

subsection \<open>The lines a method writes\<close>

text \<open>
  The lines a rendering method passes to \<^verbatim>\<open>writeLine\<close>, as a list. The lemmas
  \<open>writeLogs_lines\<close>, \<open>writeErr_lines\<close> and \<open>writeFailure_lines\<close> below show that the
  methods write exactly these lines and touch nothing else.
\<close>

definition writeLogs_lines :: "env \<Rightarrow> event \<Rightarrow> string list" where
  "writeLogs_lines env evt =
    (case logs evt of
       None \<Rightarrow> []
     | Some ls \<Rightarrow>
         map (\<lambda>log. replace_leading6 (''    '' @ colors_information env (figures_info env) @ '' '')
                      (indentString env (colors_log env log) 6)) ls)"

definition writeErr_lines :: "env \<Rightarrow> nat option \<Rightarrow> serialized_error \<Rightarrow> string list" where
  "writeErr_lines env cols e =
    (case source e of
       None \<Rightarrow> []
     | Some src \<Rightarrow>
         (''  '' @ colors_errorSource env (src_file src @ '':'' @ show_nat (src_line src))) #
         (if truthy (codeExcerpt env src cols)
          then [[], indentString env (codeExcerpt env src cols) 2] else [])) @
    (if avaAssertionError e then
       (if fst (formatSerializedError env e) then [[], indentString env (message e) 2] else []) @
       (if truthy (snd (formatSerializedError env e))
        then [[], indentString env (snd (formatSerializedError env e)) 2] else []) @
       (if truthy (improperUsageMessages_forError env e)
        then [[], indentString env (improperUsageMessages_forError env e) 2] else [])
     else if nonErrorObject e then [indentString env (trimOffNewlines env (formatted e)) 2]
     else [[], indentString env (message e) 2]) @
    (if truthy (stack e) \<and> CHR 0x0A \<in> set (stack e)
     then [[], indentString env (colors_errorStack env (stack e)) 2] else [])"

definition writeFailure_lines :: "env \<Rightarrow> reporter \<Rightarrow> event \<Rightarrow> string list" where
  "writeFailure_lines env st evt =
     (''  '' @ colors_title env (prefixTitle st (testFile evt) (title evt))) #
     writeLogs_lines env evt @ [[]] @
     (case err evt of None \<Rightarrow> [] | Some e \<Rightarrow> writeErr_lines env (columns st) e)"

text \<open>The blank lines the loop of \<^verbatim>\<open>endRun\<close> writes after the block of \<open>evt\<close>.\<close>

definition separator :: "event \<Rightarrow> bool \<Rightarrow> event \<Rightarrow> string list" where
  "separator lastFailure disclaimer evt =
     (if ref evt \<noteq> ref lastFailure \<or> disclaimer then [[], [], []] else [])"

text \<open>
  The lines of the three later sections of \<^verbatim>\<open>endRun\<close>: the known failures (lines 303
  to 308), the failure blocks (lines 312 to 324) and the disclaimer (lines 326 to 342).
  The lemma \<open>endRun_lines\<close> shows that \<^verbatim>\<open>endRun\<close> writes them after the count lines.
\<close>

definition knownFailures_lines :: "env \<Rightarrow> run_stats \<Rightarrow> reporter \<Rightarrow> string list" where
  "knownFailures_lines env s st =
     (if passedKnownFailingTests s > 0
      then [] # map (\<lambda>evt. ''  '' @ colors_error env (prefixTitle st (testFile evt) (title evt)))
                  (knownFailures st)
      else [])"

definition failures_lines :: "env \<Rightarrow> run_stats \<Rightarrow> reporter \<Rightarrow> string list" where
  "failures_lines env s st =
     (if failures st \<noteq> []
      then [] # concat (map (\<lambda>e. writeFailure_lines env st e @
                              separator (last (failures st)) (shouldWriteFailFastDisclaimer s st) e)
                        (failures st))
      else [])"

definition disclaimer_lines :: "env \<Rightarrow> run_stats \<Rightarrow> reporter \<Rightarrow> string list" where
  "disclaimer_lines env s st =
     (if shouldWriteFailFastDisclaimer s st
      then [''  '' @ colors_information env
              (backtick @ ''--fail-fast'' @ backtick @ '' is on. '' @ remaining_text s @ ''.'')]
      else [])"

text \<open>A test-passed event marked as known-failing.\<close>

definition is_known_failure :: "event \<Rightarrow> bool" where
  "is_known_failure evt = (etype evt = ''test-passed'' \<and> knownFailing evt)"

text \<open>
  The number of blank lines at the end of a text: its trailing newline characters, less
  the one that ends the last non-blank line.
\<close>

definition trailing_blank_lines :: "string \<Rightarrow> nat" where
  "trailing_blank_lines s = length (takeWhile (\<lambda>c. c = CHR 0x0A) (rev s)) - 1"

subsection \<open>The events that return\<close>

text \<open>The wording of the title line of an uncaught-exception or unhandled-rejection event.\<close>

definition uncaught_wording :: "event \<Rightarrow> string" where
  "uncaught_wording evt =
     (if etype evt = ''uncaught-exception'' then ''Uncaught exception'' else ''Unhandled rejection'')"

text \<open>The type tags \<^verbatim>\<open>consumeStateChange\<close> has a case for.\<close>

definition known_types :: "string list" where
  "known_types =
     [''declared-test'', ''hook-failed'', ''internal-error'', ''missing-ava-import'',
      ''selected-test'', ''stats'', ''test-failed'', ''test-passed'', ''timeout'',
      ''uncaught-exception'', ''unhandled-rejection'', ''worker-failed'', ''worker-finished'',
      ''worker-stderr'', ''worker-stdout'']"

text \<open>
  What the case of an event's type reads from the payload. \<open>reads_testFile\<close>: the
  case passes \<^verbatim>\<open>evt.testFile\<close> to \<^verbatim>\<open>path.relative\<close>, to the title prefixer or to the
  per-file stats lookup (lines 94, 108, 112-114, 122, 128, 135, 142, 150-152, 158-161;
  the internal-error case tests it first, line 97). \<open>reads_err\<close>: the case dereferences
  \<^verbatim>\<open>evt.err\<close> (lines 102-103, 137, 144, and 232 through \<^verbatim>\<open>writeTestSummary\<close>).
\<close>

definition reads_testFile :: "event \<Rightarrow> bool" where
  "reads_testFile evt =
     (etype evt \<in> set [''hook-failed'', ''missing-ava-import'', ''selected-test'', ''test-failed'',
                        ''test-passed'', ''uncaught-exception'', ''unhandled-rejection'',
                        ''worker-failed'', ''worker-finished''])"

definition reads_err :: "event \<Rightarrow> bool" where
  "reads_err evt =
     (etype evt \<in> set [''hook-failed'', ''internal-error'', ''test-failed'',
                        ''uncaught-exception'', ''unhandled-rejection''])"

text \<open>The payload has every field that the case of its type reads.\<close>

definition complete_payload :: "event \<Rightarrow> bool" where
  "complete_payload evt =
     ((reads_testFile evt \<longrightarrow> testFile evt \<noteq> None) \<and> (reads_err evt \<longrightarrow> err evt \<noteq> None))"

text \<open>
  The recorded stats snapshot has an entry for the event's file: \<^verbatim>\<open>fileStats\<close> of line
  86 is an object, neither \<^verbatim>\<open>null\<close> nor \<^verbatim>\<open>undefined\<close>.
\<close>

definition has_file_stats :: "reporter \<Rightarrow> event \<Rightarrow> bool" where
  "has_file_stats st evt =
     (case stats st of
        None \<Rightarrow> False
      | Some s \<Rightarrow>
          (case testFile evt of
             None \<Rightarrow> False
           | Some f \<Rightarrow> f \<noteq> [] \<and> byFile s f \<noteq> None))"

subsection \<open>Consecutive runs\<close>

text \<open>
  \<open>rebase w l st\<close> is \<open>st\<close> with \<open>w\<close> already on the stream and \<open>l\<close> already in the
  listener log: the same reporter, started later.
\<close>

definition rebase :: "string list \<Rightarrow> listener_action list \<Rightarrow> reporter \<Rightarrow> reporter" where
  "rebase w l st = st\<lparr>written := w @ written st, listener_log := l @ listener_log st\<rparr>"

fun map_outcome :: "(reporter \<Rightarrow> reporter) \<Rightarrow> outcome \<Rightarrow> outcome" where
  "map_outcome f (Returned st) = Returned (f st)"
| "map_outcome f (Threw e st) = Threw e (f st)"

text \<open>What \<^verbatim>\<open>reset\<close> logs when it calls the stored \<^verbatim>\<open>removePreviousListener\<close>.\<close>

definition unsubscription :: "reporter \<Rightarrow> listener_action list" where
  "unsubscription st = (case removePreviousListener st of None \<Rightarrow> [] | Some h \<Rightarrow> [Unsubscribed h])"

text \<open>What a run writes after \<^verbatim>\<open>startRun\<close>: its events consumed, then \<^verbatim>\<open>endRun\<close>.\<close>

definition run_output :: "env \<Rightarrow> event list \<Rightarrow> reporter \<Rightarrow> string list" where
  "run_output env evts st = emitted (\<lambda>x. and_then (consumeAll env evts x) (endRun env)) st"

subsection \<open>A concrete environment and concrete events\<close>

text \<open>
  Colours switched off (every colour function is the identity), ASCII figures, and
  simple stand-ins for the formatting helpers: enough to run the reporter on concrete
  events. \<open>plain_indent\<close> is \<^verbatim>\<open>indentString\<close> on a one-line string.
\<close>

definition plain_indent :: "string \<Rightarrow> nat \<Rightarrow> string" where
  "plain_indent s n = (if s = [] then [] else replicate n CHR '' '' @ s)"

definition plain_env :: env where
  "plain_env =
    \<lparr>colors_error = (\<lambda>s. s), colors_stack = (\<lambda>s. s), colors_errorStack = (\<lambda>s. s),
     colors_skip = (\<lambda>s. s), colors_todo = (\<lambda>s. s), colors_title = (\<lambda>s. s),
     colors_errorSource = (\<lambda>s. s), colors_log = (\<lambda>s. s), colors_information = (\<lambda>s. s),
     colors_pass = (\<lambda>s. s), colors_duration = (\<lambda>s. s), chalk_gray_dim = (\<lambda>s. s),
     figures_cross = ''x'', figures_tick = ''v'', figures_info = ''i'',
     indentString = plain_indent,
     prettyMs = (\<lambda>ms. show_int ms @ ''ms''),
     trimOffNewlines = (\<lambda>s. s),
     path_relative = (\<lambda>f. f),
     codeExcerpt = (\<lambda>src cols. []),
     formatSerializedError = (\<lambda>e. (False, [])),
     improperUsageMessages_forError = (\<lambda>e. []),
     ext_prefixTitle = (\<lambda>prefix testFile title. title),
     localeTime = ''12:00:00''\<rparr>"

text \<open>
  An error with a message and a one-line stack, and events built from an event whose
  optional fields are absent and whose other fields are empty. \<open>failed_event r t\<close> is
  the test-failed event object \<open>r\<close>.
\<close>

definition plain_error :: serialized_error where
  "plain_error =
     \<lparr>source = None, avaAssertionError = False, nonErrorObject = False, message = ''boom'',
      formatted = [], stack = ''Error: boom'', summary = ''Error: boom''\<rparr>"

definition blank_event :: event where
  "blank_event =
    \<lparr>ref = 0, etype = [], testFile = None, title = [], err = None, knownFailing = False,
     duration = None, logs = None, skip = False, todo = False, period = 0,
     nonZeroExitCode = None, signal = [], forcedExit = False, chunk = [], evt_stats = None\<rparr>"

definition passed_event :: "string \<Rightarrow> bool \<Rightarrow> int \<Rightarrow> event" where
  "passed_event t kf ms =
     blank_event\<lparr>etype := ''test-passed'', title := t, knownFailing := kf, duration := Some ms\<rparr>"

definition failed_event :: "nat \<Rightarrow> string \<Rightarrow> event" where
  "failed_event r t =
     blank_event\<lparr>ref := r, etype := ''test-failed'', testFile := Some ''a.js'', title := t,
                 err := Some plain_error\<rparr>"

definition internal_error_event :: event where
  "internal_error_event =
     blank_event\<lparr>etype := ''internal-error'', testFile := Some ''a.js'', err := Some plain_error\<rparr>"

definition uncaught_event :: "string \<Rightarrow> event" where
  "uncaught_event f =
     blank_event\<lparr>etype := ''uncaught-exception'', testFile := Some f, err := Some plain_error\<rparr>"

definition rejection_event :: "string \<Rightarrow> event" where
  "rejection_event f =
     blank_event\<lparr>etype := ''unhandled-rejection'', testFile := Some f, err := Some plain_error\<rparr>"

text \<open>Raw worker output, and an uncaught exception whose error has an empty message.\<close>

definition stdout_event :: "string \<Rightarrow> event" where
  "stdout_event c = blank_event\<lparr>etype := ''worker-stdout'', chunk := c\<rparr>"

definition empty_message_event :: "string \<Rightarrow> event" where
  "empty_message_event f = (uncaught_event f)\<lparr>err := Some (plain_error\<lparr>message := []\<rparr>)\<rparr>"

definition worker_finished_event :: "string \<Rightarrow> event" where
  "worker_finished_event f = blank_event\<lparr>etype := ''worker-finished'', testFile := Some f\<rparr>"

text \<open>Stats snapshots, carried by a stats event.\<close>

definition zero_stats :: run_stats where
  "zero_stats =
     \<lparr>byFile = Map.empty, selectedTests = 0, failedHooks = 0, failedTests = 0, passedTests = 0,
      passedKnownFailingTests = 0, skippedTests = 0, todoTests = 0, unhandledRejections = 0,
      uncaughtExceptions = 0, remainingTests = 0, files = 0, finishedWorkers = 0\<rparr>"

definition two_failed_stats :: run_stats where
  "two_failed_stats = zero_stats\<lparr>failedTests := 2\<rparr>"

definition known_failure_stats :: run_stats where
  "known_failure_stats = zero_stats\<lparr>passedTests := 1, passedKnownFailingTests := 1\<rparr>"

definition fail_fast_stats :: run_stats where
  "fail_fast_stats = zero_stats\<lparr>remainingTests := 2, files := 5, finishedWorkers := 3\<rparr>"

definition stats_event :: "run_stats \<Rightarrow> event" where
  "stats_event s = blank_event\<lparr>etype := ''stats'', evt_stats := Some s\<rparr>"

text \<open>
  A run: \<^verbatim>\<open>startRun\<close> with a plan for one file on a freshly constructed reporter,
  then the events.
\<close>

definition plain_plan :: plan where
  "plain_plan =
     \<lparr>plan_failFastEnabled = False, plan_matching = False, plan_previousFailures = 0,
      plan_files = [''a.js''], filePathPrefix = [], status = 1, runVector = 1\<rparr>"

definition run_state :: "event list \<Rightarrow> reporter" where
  "run_state evts =
     state_of (consumeAll plain_env evts (startRun plain_env plain_plan (constructor False None)))"

text \<open>A fail-fast run that has received stats with tests remaining and files unfinished.\<close>

definition fail_fast_state :: reporter where
  "fail_fast_state =
     state_of (consumeStateChange plain_env
       (stats_event fail_fast_stats)
       (startRun plain_env (plain_plan\<lparr>plan_failFastEnabled := True\<rparr>) (constructor False None)))"

text \<open>A reporter at the end of a run that recorded a failure, a known failure and stats.\<close>

definition previous_run_state :: reporter where
  "previous_run_state =
     state_of (endRun plain_env
       (run_state [stats_event (two_failed_stats\<lparr>passedKnownFailingTests := 1\<rparr>),
                   failed_event 2 ''a'', passed_event ''k'' True 5]))"

section \<open>Lemmas about the rendering methods\<close>

subsection \<open>Lines written one after the other\<close>

lemma writeLines_simps [simp]:
  "writeLines [] st = st"
  "writeLines (l # ls) st = writeLines ls (writeLine l st)"
  by (simp_all add: writeLines_def)

lemma writeLines_eq:
  "writeLines ls st =
     st\<lparr>written := written st @ map (\<lambda>l. l @ newline) ls,
        lastLineIsEmpty := (if ls = [] then lastLineIsEmpty st else last ls = [])\<rparr>"
  by (induction ls arbitrary: st) (simp_all add: writeLine_def)

lemma writeLines_fields [simp]:
  "watching (writeLines ls st) = watching st"
  "failFastEnabled (writeLines ls st) = failFastEnabled st"
  "failures (writeLines ls st) = failures st"
  "filesWithMissingAvaImports (writeLines ls st) = filesWithMissingAvaImports st"
  "knownFailures (writeLines ls st) = knownFailures st"
  "matching (writeLines ls st) = matching st"
  "prefixTitle (writeLines ls st) = prefixTitle st"
  "previousFailures (writeLines ls st) = previousFailures st"
  "removePreviousListener (writeLines ls st) = removePreviousListener st"
  "stats (writeLines ls st) = stats st"
  "columns (writeLines ls st) = columns st"
  "listener_log (writeLines ls st) = listener_log st"
  "written (writeLines ls st) = written st @ map (\<lambda>l. l @ newline) ls"
  by (simp_all add: writeLines_eq)

lemma writeLines_writeLines: "writeLines ys (writeLines xs st) = writeLines (xs @ ys) st"
  by (simp add: writeLines_def)

lemma writeLine_as_writeLines: "writeLine l st = writeLines [l] st"
  by simp

lemma fold_writeLine_map: "fold (\<lambda>x. writeLine (f x)) xs st = writeLines (map f xs) st"
  by (induction xs arbitrary: st) simp_all

lemma emitted_Returned_writeLines:
  "f st = Returned (writeLines ls st) \<Longrightarrow> emitted f st = map (\<lambda>l. l @ newline) ls"
  by (simp add: emitted_def)

lemma writes_refl: "\<exists>ls. st = writeLines ls st"
  by (rule exI [of _ "[]"]) simp

lemma writes_trans:
  "\<exists>ls. b = writeLines ls a \<Longrightarrow> \<exists>ls. c = writeLines ls b \<Longrightarrow> \<exists>ls. c = writeLines ls a"
  by (metis writeLines_writeLines)

lemma writes_step: "\<exists>ls. writeLines xs st = writeLines ls st"
  by blast

subsection \<open>The rendering methods write their lines and nothing else\<close>

lemma writeLogs_lines: "writeLogs env evt st = writeLines (writeLogs_lines env evt) st"
  by (simp add: writeLogs_def writeLogs_lines_def Let_def fold_writeLine_map split: option.splits)

lemma writeErr_lines:
  "err evt = Some e \<Longrightarrow>
   writeErr env evt st = Returned (writeLines (writeErr_lines env (columns st) e) st)"
  by (simp add: writeErr_def writeErr_lines_def Let_def writeLines_def writeLine_def
      split: option.splits)

lemma writeErr_cases:
  "writeErr env evt st =
     (case err evt of
        None \<Rightarrow> Threw TypeError st
      | Some e \<Rightarrow> Returned (writeLines (writeErr_lines env (columns st) e) st))"
  by (cases "err evt") (simp_all add: writeErr_lines, simp add: writeErr_def)

lemma emitted_writeErr:
  "err evt = Some e \<Longrightarrow>
   emitted (writeErr env evt) st = map (\<lambda>l. l @ newline) (writeErr_lines env (columns st) e)"
  by (rule emitted_Returned_writeLines) (simp add: writeErr_lines)

lemma writeFailure_lines:
  "err evt = Some e \<Longrightarrow>
   writeFailure env evt st = Returned (writeLines (writeFailure_lines env st evt) st)"
  by (simp add: writeFailure_def writeFailure_lines_def writeLogs_lines writeErr_lines
      writeLine_as_writeLines writeLines_writeLines del: writeLines_simps)

lemma writeFailure_lines_cong:
  "prefixTitle st' = prefixTitle st \<Longrightarrow> columns st' = columns st \<Longrightarrow>
   writeFailure_lines env st' evt = writeFailure_lines env st evt"
  by (simp add: writeFailure_lines_def split: option.splits)

lemma emitted_writeFailure:
  "err e \<noteq> None \<Longrightarrow>
   emitted (writeFailure env e) st = map (\<lambda>l. l @ newline) (writeFailure_lines env st e)"
  by (rule emitted_Returned_writeLines) (auto simp: writeFailure_lines)

lemma writeFailures_lines:
  "\<forall>e \<in> set evts. err e \<noteq> None \<Longrightarrow>
   writeFailures env lf d evts st =
     Returned (writeLines (concat (map (\<lambda>e. writeFailure_lines env st e @ separator lf d e) evts)) st)"
proof (induction evts arbitrary: st)
  case Nil
  then show ?case by simp
next
  case (Cons evt evts)
  from Cons.prems obtain e where e: "err evt = Some e" by auto
  have rest: "\<forall>e \<in> set evts. err e \<noteq> None" using Cons.prems by simp
  let ?st1 = "writeLines (writeFailure_lines env st evt) st"
  let ?st2 = "writeLines (separator lf d evt) ?st1"
  have step: "(if ref evt \<noteq> ref lf \<or> d then writeLine [] (writeLine [] (writeLine [] ?st1)) else ?st1) = ?st2"
    by (simp add: separator_def)
  have cong: "\<And>x ls. writeFailure_lines env (writeLines ls st) x = writeFailure_lines env st x"
    by (rule writeFailure_lines_cong) simp_all
  show ?case
    using Cons.IH [OF rest, of ?st2]
    by (simp only: writeFailures.simps writeFailure_lines [OF e] and_then.simps step cong
        writeLines_writeLines list.map concat.simps append_assoc)
qed

lemma writeFailures_Returned:
  "writeFailures env lf d evts st = Returned st' \<Longrightarrow> \<exists>ls. st' = writeLines ls st"
proof (induction evts arbitrary: st)
  case Nil
  then have "st' = st" by simp
  then show ?case by (simp add: writes_refl)
next
  case (Cons evt evts)
  show ?case
  proof (cases "err evt")
    case None
    with Cons.prems show ?thesis
      by (simp add: writeFailure_def writeErr_cases)
  next
    case (Some e)
    let ?st1 = "writeLines (writeFailure_lines env st evt) st"
    let ?st2 = "writeLines (separator lf d evt) ?st1"
    have step: "(if ref evt \<noteq> ref lf \<or> d then writeLine [] (writeLine [] (writeLine [] ?st1)) else ?st1) = ?st2"
      by (simp add: separator_def)
    have "writeFailures env lf d evts ?st2 = Returned st'"
      using Cons.prems
      by (simp only: writeFailures.simps writeFailure_lines [OF Some] and_then.simps step)
    from Cons.IH [OF this] have "\<exists>ls. st' = writeLines ls ?st2" .
    moreover have "\<exists>ls. ?st2 = writeLines ls st"
      by (simp only: writeLines_writeLines) (rule writes_step)
    ultimately show ?thesis
      by (rule writes_trans [rotated])
  qed
qed

lemma map_separator:
  "map (\<lambda>l. l @ newline) (separator lf d e) =
     (if ref e \<noteq> ref lf \<or> d then [newline, newline, newline] else [])"
  by (simp add: separator_def)

lemma emitted_failures_lines:
  assumes "\<forall>e \<in> set fs. err e \<noteq> None"
  shows "map (\<lambda>l. l @ newline) (concat (map (\<lambda>e. writeFailure_lines env st e @ separator lf d e) fs)) =
         concat (map (\<lambda>e. emitted (writeFailure env e) st @
                        (if ref e \<noteq> ref lf \<or> d then [newline, newline, newline] else [])) fs)"
  using assms
  by (induction fs) (simp_all add: emitted_writeFailure map_separator del: append.simps)

lemma concat_blocks_distinct:
  assumes "fs \<noteq> []" and "\<forall>e \<in> set (butlast fs). ref e \<noteq> ref (last fs)"
  shows "concat (map (\<lambda>e. blk e @ (if ref e \<noteq> ref (last fs) \<or> d then sep else [])) fs) =
         concat (map (\<lambda>e. blk e @ sep) (butlast fs)) @ blk (last fs) @ (if d then sep else [])"
proof -
  have split: "fs = butlast fs @ [last fs]"
    using assms(1) by simp
  have "concat (map (\<lambda>e. blk e @ (if ref e \<noteq> ref (last fs) \<or> d then sep else [])) (butlast fs @ [last fs])) =
        concat (map (\<lambda>e. blk e @ sep) (butlast fs)) @ blk (last fs) @ (if d then sep else [])"
    using assms(2) by (simp cong: map_cong)
  with split show ?thesis by simp
qed

lemma distinct_refs_butlast:
  assumes "distinct (map ref fs)" and "fs \<noteq> []"
  shows "\<forall>e \<in> set (butlast fs). ref e \<noteq> ref (last fs)"
proof
  fix e
  assume e: "e \<in> set (butlast fs)"
  have "fs = butlast fs @ [last fs]"
    using assms(2) by simp
  then have "distinct (map ref (butlast fs @ [last fs]))"
    using assms(1) by simp
  then have "ref (last fs) \<notin> ref ` set (butlast fs)"
    by simp
  with e show "ref e \<noteq> ref (last fs)"
    by (metis imageI)
qed

subsection \<open>The sections of endRun\<close>

lemma shouldWrite_writeLines [simp]:
  "shouldWriteFailFastDisclaimer s (writeLines ls st) = shouldWriteFailFastDisclaimer s st"
  by (simp add: shouldWriteFailFastDisclaimer_def)

lemma endRun_knownFailures_lines:
  "endRun_knownFailures env s st = writeLines (knownFailures_lines env s st) st"
  by (simp add: endRun_knownFailures_def knownFailures_lines_def fold_writeLine_map)

lemma knownFailures_lines_writeLines [simp]:
  "knownFailures_lines env s (writeLines ls st) = knownFailures_lines env s st"
  by (simp add: knownFailures_lines_def)

lemma failures_lines_writeLines [simp]:
  "failures_lines env s (writeLines ls st) = failures_lines env s st"
  by (simp add: failures_lines_def writeFailure_lines_cong [of "writeLines ls st" st])

lemma disclaimer_lines_writeLines [simp]:
  "disclaimer_lines env s (writeLines ls st) = disclaimer_lines env s st"
  by (simp add: disclaimer_lines_def)

lemma endRun_failures_lines:
  "\<forall>e \<in> set (failures st). err e \<noteq> None \<Longrightarrow>
   endRun_failures env s st = Returned (writeLines (failures_lines env s st) st)"
proof (cases "failures st = []")
  case True
  then show ?thesis by (simp add: endRun_failures_def failures_lines_def)
next
  case False
  assume errs: "\<forall>e \<in> set (failures st). err e \<noteq> None"
  have cong: "\<And>x ls. writeFailure_lines env (writeLines ls st) x = writeFailure_lines env st x"
    by (rule writeFailure_lines_cong) simp_all
  have sw: "shouldWriteFailFastDisclaimer s (writeLine [] st) = shouldWriteFailFastDisclaimer s st"
    by (simp add: shouldWriteFailFastDisclaimer_def writeLine_def)
  show ?thesis
    using False writeFailures_lines [OF errs, of env "last (failures st)"
        "shouldWriteFailFastDisclaimer s st" "writeLine [] st"]
    by (simp add: endRun_failures_def failures_lines_def cong writeLines_writeLines
        writeLine_as_writeLines del: writeLines_simps)
qed

lemma endRun_disclaimer_lines:
  "endRun_disclaimer env s st = writeLines (disclaimer_lines env s st) st"
  by (simp add: endRun_disclaimer_def disclaimer_lines_def)

lemma endRun_lines:
  assumes "stats st = Some s" and "\<not> (matching st \<and> selectedTests s = 0)"
    and "\<forall>e \<in> set (failures st). err e \<noteq> None"
  shows "endRun env st =
           Returned (writeLines (endRun_counts env s st @ knownFailures_lines env s st @
                                 failures_lines env s st @ disclaimer_lines env s st @ [[]]) st)"
proof -
  let ?st1 = "writeLines (endRun_counts env s st @ knownFailures_lines env s st) st"
  have errs: "\<forall>e \<in> set (failures ?st1). err e \<noteq> None"
    using assms(3) by simp
  have "endRun env st =
          and_then (endRun_failures env s ?st1)
            (\<lambda>st1. Returned (writeLine [] (endRun_disclaimer env s st1)))"
    using assms(1,2)
    by (cases "matching st")
      (simp_all add: endRun_def endRun_knownFailures_lines writeLines_writeLines del: writeLines_simps)
  also have "\<dots> = Returned (writeLines (endRun_counts env s st @ knownFailures_lines env s st @
                                 failures_lines env s st @ disclaimer_lines env s st @ [[]]) st)"
    by (simp add: endRun_failures_lines [OF errs] endRun_disclaimer_lines writeLine_as_writeLines
        writeLines_writeLines del: writeLines_simps)
  finally show ?thesis .
qed

lemma emitted_endRun:
  assumes "stats st = Some s" and "\<not> (matching st \<and> selectedTests s = 0)"
    and "\<forall>e \<in> set (failures st). err e \<noteq> None"
  shows "emitted (endRun env) st =
           map (\<lambda>l. l @ newline)
             (endRun_counts env s st @ knownFailures_lines env s st @
              failures_lines env s st @ disclaimer_lines env s st @ [[]])"
  by (rule emitted_Returned_writeLines) (rule endRun_lines [OF assms])

lemma endRun_failure_blocks:
  assumes "stats st = Some s" and "\<not> (matching st \<and> selectedTests s = 0)"
    and "failures st \<noteq> []" and "\<forall>e \<in> set (failures st). err e \<noteq> None"
  shows "emitted (endRun env) st =
           map (\<lambda>l. l @ newline) (endRun_counts env s st @ knownFailures_lines env s st) @
           [newline] @
           concat (map (\<lambda>e. emitted (writeFailure env e) st @
                          (if ref e \<noteq> ref (last (failures st)) \<or> shouldWriteFailFastDisclaimer s st
                           then [newline, newline, newline] else []))
                   (failures st)) @
           map (\<lambda>l. l @ newline) (disclaimer_lines env s st) @ [newline]"
  using assms(3)
  by (simp add: emitted_endRun [OF assms(1,2,4)] failures_lines_def
      emitted_failures_lines [OF assms(4)])

lemma endRun_Returned:
  assumes "endRun env st = Returned st'"
  shows "\<exists>ls. st' = writeLines ls st"
proof (cases "stats st")
  case None
  with assms have "st' = writeLines [colors_error env (''  '' @ figures_cross env @ '' Couldn'' @
      apostrophe @ ''t find any files to test''), []] st"
    by (simp add: endRun_def)
  then show ?thesis by blast
next
  case (Some s)
  show ?thesis
  proof (cases "matching st \<and> selectedTests s = 0")
    case True
    with assms Some have "st' = writeLines [colors_error env (''  '' @ figures_cross env @ '' Couldn'' @
      apostrophe @ ''t find any matching tests''), []] st"
      by (simp add: endRun_def)
    then show ?thesis by blast
  next
    case False
    let ?st1 = "writeLines (endRun_counts env s st @ knownFailures_lines env s st) st"
    from assms Some False
    have r: "and_then (endRun_failures env s ?st1)
               (\<lambda>st1. Returned (writeLine [] (endRun_disclaimer env s st1))) = Returned st'"
      by (cases "matching st")
        (simp_all add: endRun_def endRun_knownFailures_lines writeLines_writeLines
          del: writeLines_simps)
    then obtain st2 where f: "endRun_failures env s ?st1 = Returned st2"
      and l: "st' = writeLine [] (endRun_disclaimer env s st2)"
      by (cases "endRun_failures env s ?st1") auto
    have w1: "\<exists>ls. ?st1 = writeLines ls st"
      by (rule writes_step)
    have w2: "\<exists>ls. st2 = writeLines ls ?st1"
    proof (cases "failures ?st1 = []")
      case True
      with f have "st2 = ?st1" by (simp add: endRun_failures_def)
      then show ?thesis by (simp only: writes_refl)
    next
      case False
      with f have "writeFailures env (last (failures ?st1))
          (shouldWriteFailFastDisclaimer s ?st1) (failures ?st1) (writeLines [[]] ?st1) = Returned st2"
        by (simp add: endRun_failures_def)
      from writeFailures_Returned [OF this] have "\<exists>ls. st2 = writeLines ls (writeLines [[]] ?st1)" .
      moreover have "\<exists>ls. writeLines [[]] ?st1 = writeLines ls ?st1"
        by (rule writes_step)
      ultimately show ?thesis
        by (rule writes_trans [rotated])
    qed
    have w3: "\<exists>ls. st' = writeLines ls st2"
      unfolding l endRun_disclaimer_lines writeLine_as_writeLines writeLines_writeLines
      by (rule writes_step)
    show ?thesis
      by (rule writes_trans [OF writes_trans [OF w1 w2] w3])
  qed
qed

subsection \<open>The text of the disclaimer\<close>

lemma digit_char_not_comma: "d < 10 \<Longrightarrow> digit_char d \<noteq> CHR '',''"
proof -
  assume "d < 10"
  then have "d \<in> {0, 1, 2, 3, 4, 5, 6, 7, 8, 9}" by auto
  then show ?thesis by (auto simp: digit_char_def)
qed

lemma show_nat_no_comma: "CHR '','' \<notin> set (show_nat n)"
proof (induction n rule: show_nat.induct)
  case (1 n)
  show ?case
  proof (cases "n < 10")
    case True
    then show ?thesis
      by (subst show_nat.simps) (simp add: digit_char_not_comma [THEN not_sym])
  next
    case False
    have "n mod 10 < 10" by simp
    with False "1.IH" show ?thesis
      by (subst show_nat.simps) (simp add: digit_char_not_comma [THEN not_sym])
  qed
qed

lemma comma_in_sublist: "sublist '', as well as '' t \<Longrightarrow> CHR '','' \<in> set t"
  using set_mono_sublist [of "'', as well as ''" t] by auto

lemma remaining_text_shape:
  "remaining_text s =
     (if remainingTests s > 0
      then ''At least '' @ show_nat (remainingTests s) @ '' '' @
           (if remainingTests s = 1 then ''test was'' else ''tests were'') @ '' skipped''
      else []) @
     (if remainingTests s > 0 \<and> files s > finishedWorkers s then '', as well as '' else []) @
     (if files s > finishedWorkers s
      then show_nat (files s - finishedWorkers s) @ '' '' @
           (if files s - finishedWorkers s = 1 then ''test file'' else ''test files'') @
           (if remainingTests s = 0
            then '' '' @ (if files s - finishedWorkers s = 1 then ''was'' else ''were'') @ '' skipped''
            else [])
      else [])"
  by (simp add: remaining_text_def Let_def plur3_def)

lemma as_well_as_iff:
  "sublist '', as well as '' (remaining_text s) = (remainingTests s > 0 \<and> files s > finishedWorkers s)"
proof
  assume "sublist '', as well as '' (remaining_text s)"
  then have "CHR '','' \<in> set (remaining_text s)" by (rule comma_in_sublist)
  then show "remainingTests s > 0 \<and> files s > finishedWorkers s"
    by (simp add: remaining_text_shape show_nat_no_comma split: if_splits)
next
  assume "remainingTests s > 0 \<and> files s > finishedWorkers s"
  then have "remaining_text s =
      (''At least '' @ show_nat (remainingTests s) @ '' '' @
           (if remainingTests s = 1 then ''test was'' else ''tests were'') @ '' skipped'') @
      '', as well as '' @
      (show_nat (files s - finishedWorkers s) @ '' '' @
           (if files s - finishedWorkers s = 1 then ''test file'' else ''test files''))"
    by (simp add: remaining_text_shape)
  then show "sublist '', as well as '' (remaining_text s)"
    by (metis sublist_appendI)
qed

subsection \<open>What an event, and a run of events, change\<close>

lemma writeTestSummary_Returned:
  "writeTestSummary env evt st = Returned st' \<Longrightarrow>
   (\<exists>ls. st' = writeLines ls st) \<and> (is_failure_type evt \<longrightarrow> err evt \<noteq> None)"
  by (auto simp: writeTestSummary_def writeLogs_lines writeLine_as_writeLines writeLines_writeLines
      Let_def simp del: writeLines_simps split: if_splits option.splits)

lemma uncaught_Returned:
  "uncaught env what evt st = Returned st' \<Longrightarrow> \<exists>ls. st' = writeLines ls st"
proof -
  assume a: "uncaught env what evt st = Returned st'"
  have e: "ensureEmptyLine st = writeLines (if lastLineIsEmpty st then [] else [[]]) st"
    by (simp add: ensureEmptyLine_def)
  from a show ?thesis
    unfolding uncaught_def Let_def e
    by (auto simp: writeErr_cases writeLine_as_writeLines writeLines_writeLines
      simp del: writeLines_simps split: option.splits)
qed

lemma consumeStateChange_step:
  assumes "consumeStateChange env evt st = Returned st'"
  shows "failures st' = failures st @ (if is_failure_type evt then [evt] else [])"
    and "knownFailures st' = knownFailures st @ (if is_known_failure evt then [evt] else [])"
    and "is_failure_type evt \<Longrightarrow> err evt \<noteq> None"
    and "prefixTitle st' = prefixTitle st"
    and "columns st' = columns st"
    and "watching st' = watching st"
    and "failFastEnabled st' = failFastEnabled st"
    and "matching st' = matching st"
    and "previousFailures st' = previousFailures st"
    and "removePreviousListener st' = removePreviousListener st"
    and "listener_log st' = listener_log st"
  using assms
  unfolding consumeStateChange_def Let_def is_failure_type_def is_known_failure_def
  by (auto simp: writeLine_def stream_write_def split: if_splits option.splits
      dest!: writeTestSummary_Returned uncaught_Returned simp: is_failure_type_def)

lemma reset_fields:
  "failures (reset st) = []"
  "knownFailures (reset st) = []"
  "filesWithMissingAvaImports (reset st) = {}"
  "stats (reset st) = None"
  "\<not> failFastEnabled (reset st)"
  "\<not> matching (reset st)"
  "previousFailures (reset st) = 0"
  "prefixTitle (reset st) = (\<lambda>testFile title. title)"
  "\<not> lastLineIsEmpty (reset st)"
  "removePreviousListener (reset st) = None"
  by (simp_all add: reset_def Let_def split: option.splits)

lemma startRun_fields:
  "failures (startRun env p st) = []"
  "knownFailures (startRun env p st) = []"
  "filesWithMissingAvaImports (startRun env p st) = {}"
  "stats (startRun env p st) = None"
  "failFastEnabled (startRun env p st) = plan_failFastEnabled p"
  "matching (startRun env p st) = plan_matching p"
  "previousFailures (startRun env p st) = plan_previousFailures p"
  "lastLineIsEmpty (startRun env p st) = True"
  "removePreviousListener (startRun env p st) = Some (status p)"
  "watching (startRun env p st) = watching st"
  "columns (startRun env p st) = columns st"
  "prefixTitle (startRun env p st) =
     (if watching st \<or> length (plan_files p) > 1
      then (\<lambda>testFile title. ext_prefixTitle env (filePathPrefix p) testFile title)
      else (\<lambda>testFile title. title))"
  by (simp_all add: startRun_def reset_def Let_def writeLine_def split: option.splits)

lemma listener_log_startRun:
  "listener_log (startRun env p st) = listener_log st @ unsubscription st @ [Subscribed (status p)]"
  by (simp add: startRun_def reset_def unsubscription_def Let_def writeLine_def split: option.splits)

lemma consumeAll_fields:
  "consumeAll env evts st0 = Returned st \<Longrightarrow>
   failures st = failures st0 @ filter is_failure_type evts \<and>
   knownFailures st = knownFailures st0 @ filter is_known_failure evts \<and>
   (\<forall>e \<in> set (filter is_failure_type evts). err e \<noteq> None) \<and>
   prefixTitle st = prefixTitle st0 \<and> columns st = columns st0 \<and>
   removePreviousListener st = removePreviousListener st0 \<and> listener_log st = listener_log st0"
proof (induction evts arbitrary: st0)
  case Nil
  then show ?case by simp
next
  case (Cons evt evts)
  from Cons.prems obtain st1 where s1: "consumeStateChange env evt st0 = Returned st1"
    and rest: "consumeAll env evts st1 = Returned st"
    by (cases "consumeStateChange env evt st0") simp_all
  show ?case
    using Cons.IH [OF rest] consumeStateChange_step [OF s1] by simp
qed

subsection \<open>Uncaught exceptions, and which events return\<close>

lemma lastLineIsEmpty_after_write:
  "lastLineIsEmpty (writeLine str st) = (str = [])"
  "lastLineIsEmpty (stream_write c st) = lastLineIsEmpty st"
  by (simp_all add: writeLine_def stream_write_def)

lemma uncaught_lines:
  assumes "testFile evt = Some f" and "err evt = Some e"
  shows "uncaught env what evt st =
           Returned (writeLines
             ((if lastLineIsEmpty st then [] else [[]]) @
              [''  '' @ colors_title env (what @ '' in '' @ path_relative env f), []] @
              writeErr_lines env (columns st) e @ [[]]) st)"
proof -
  have e: "ensureEmptyLine st = writeLines (if lastLineIsEmpty st then [] else [[]]) st"
    by (simp add: ensureEmptyLine_def)
  show ?thesis
    unfolding uncaught_def Let_def e
    by (simp add: assms writeErr_cases writeLine_as_writeLines writeLines_writeLines
        del: writeLines_simps)
qed

lemma consume_uncaught:
  assumes "etype evt = ''uncaught-exception'' \<or> etype evt = ''unhandled-rejection''"
  shows "consumeStateChange env evt st = uncaught env (uncaught_wording evt) evt st"
  using assms by (auto simp: consumeStateChange_def uncaught_wording_def)

lemma lastLineIsEmpty_writeLines_blank:
  "lastLineIsEmpty (writeLines (ls @ [[]]) st)"
  by (simp add: writeLines_eq)

lemma returned_writeTestSummary:
  "returned (writeTestSummary env evt st) = (is_failure_type evt \<longrightarrow> err evt \<noteq> None)"
  by (auto simp: writeTestSummary_def Let_def split: option.splits)

lemma returned_uncaught:
  "returned (uncaught env what evt st) = (testFile evt \<noteq> None \<and> err evt \<noteq> None)"
  by (auto simp: uncaught_def Let_def writeErr_cases split: option.splits)

subsection \<open>The output of a call does not depend on what is already on the stream\<close>

lemma rebase_fields [simp]:
  "watching (rebase w l st) = watching st"
  "failFastEnabled (rebase w l st) = failFastEnabled st"
  "failures (rebase w l st) = failures st"
  "filesWithMissingAvaImports (rebase w l st) = filesWithMissingAvaImports st"
  "knownFailures (rebase w l st) = knownFailures st"
  "lastLineIsEmpty (rebase w l st) = lastLineIsEmpty st"
  "matching (rebase w l st) = matching st"
  "prefixTitle (rebase w l st) = prefixTitle st"
  "previousFailures (rebase w l st) = previousFailures st"
  "removePreviousListener (rebase w l st) = removePreviousListener st"
  "stats (rebase w l st) = stats st"
  "columns (rebase w l st) = columns st"
  "written (rebase w l st) = w @ written st"
  "listener_log (rebase w l st) = l @ listener_log st"
  by (simp_all add: rebase_def)

lemma rebase_updates [simp]:
  "(rebase w l st)\<lparr>failures := fs\<rparr> = rebase w l (st\<lparr>failures := fs\<rparr>)"
  "(rebase w l st)\<lparr>knownFailures := ks\<rparr> = rebase w l (st\<lparr>knownFailures := ks\<rparr>)"
  "(rebase w l st)\<lparr>filesWithMissingAvaImports := ms\<rparr> = rebase w l (st\<lparr>filesWithMissingAvaImports := ms\<rparr>)"
  "(rebase w l st)\<lparr>stats := s\<rparr> = rebase w l (st\<lparr>stats := s\<rparr>)"
  by (simp_all add: rebase_def)

lemma writeLine_rebase [simp]: "writeLine x (rebase w l st) = rebase w l (writeLine x st)"
  by (simp add: writeLine_def rebase_def)

lemma writeLines_rebase [simp]: "writeLines ls (rebase w l st) = rebase w l (writeLines ls st)"
  by (induction ls arbitrary: st) simp_all

lemma stream_write_rebase [simp]: "stream_write c (rebase w l st) = rebase w l (stream_write c st)"
  by (simp add: stream_write_def rebase_def)

lemma ensureEmptyLine_rebase [simp]:
  "ensureEmptyLine (rebase w l st) = rebase w l (ensureEmptyLine st)"
  by (simp add: ensureEmptyLine_def)

lemma writeErr_rebase [simp]:
  "writeErr env evt (rebase w l st) = map_outcome (rebase w l) (writeErr env evt st)"
  by (simp add: writeErr_cases split: option.splits)

lemma writeTestSummary_rebase [simp]:
  "writeTestSummary env evt (rebase w l st) = map_outcome (rebase w l) (writeTestSummary env evt st)"
  by (simp add: writeTestSummary_def writeLogs_lines Let_def split: option.splits)

lemma map_outcome_and_then:
  "(\<And>s. g (f s) = map_outcome f (h s)) \<Longrightarrow>
   and_then (map_outcome f r) g = map_outcome f (and_then r h)"
  by (cases r) simp_all

lemma writeFailure_rebase [simp]:
  "writeFailure env evt (rebase w l st) = map_outcome (rebase w l) (writeFailure env evt st)"
  by (simp add: writeFailure_def writeLogs_lines)

lemma uncaught_rebase [simp]:
  "uncaught env what evt (rebase w l st) = map_outcome (rebase w l) (uncaught env what evt st)"
  by (simp add: uncaught_def Let_def map_outcome_and_then split: option.splits)

lemma consumeStateChange_rebase:
  "consumeStateChange env evt (rebase w l st) =
     map_outcome (rebase w l) (consumeStateChange env evt st)"
  unfolding consumeStateChange_def Let_def
  by (simp split: option.splits)

lemma consumeAll_rebase:
  "consumeAll env evts (rebase w l st) = map_outcome (rebase w l) (consumeAll env evts st)"
proof (induction evts arbitrary: st)
  case Nil
  then show ?case by simp
next
  case (Cons evt evts)
  show ?case
    by (simp add: consumeStateChange_rebase
        map_outcome_and_then [of "consumeAll env evts" "rebase w l" "consumeAll env evts", OF Cons.IH])
qed

lemma writeFailures_rebase:
  "writeFailures env lf d evts (rebase w l st) =
     map_outcome (rebase w l) (writeFailures env lf d evts st)"
proof (induction evts arbitrary: st)
  case Nil
  then show ?case by simp
next
  case (Cons evt evts)
  let ?sep = "\<lambda>s. if ref evt \<noteq> ref lf \<or> d then writeLine [] (writeLine [] (writeLine [] s)) else s"
  have push: "\<And>s. ?sep (rebase w l s) = rebase w l (?sep s)"
    by simp
  have step: "\<And>s. writeFailures env lf d evts (?sep (rebase w l s)) =
              map_outcome (rebase w l) (writeFailures env lf d evts (?sep s))"
    by (simp only: push Cons.IH)
  show ?case
    by (simp only: writeFailures.simps writeFailure_rebase
        map_outcome_and_then [of "\<lambda>s. writeFailures env lf d evts (?sep s)" "rebase w l"
          "\<lambda>s. writeFailures env lf d evts (?sep s)", OF step])
qed

lemma endRun_rebase:
  "endRun env (rebase w l st) = map_outcome (rebase w l) (endRun env st)"
proof -
  have counts: "\<And>s. endRun_counts env s (rebase w l st) = endRun_counts env s st"
    by (simp add: endRun_counts_def)
  have kf: "\<And>s x. endRun_knownFailures env s (rebase w l x) = rebase w l (endRun_knownFailures env s x)"
    by (simp add: endRun_knownFailures_lines knownFailures_lines_def)
  have fl: "\<And>s x. endRun_failures env s (rebase w l x) =
      map_outcome (rebase w l) (endRun_failures env s x)"
    by (simp add: endRun_failures_def writeFailures_rebase shouldWriteFailFastDisclaimer_def)
  have dls: "\<And>s x. disclaimer_lines env s (rebase w l x) = disclaimer_lines env s x"
    by (simp add: disclaimer_lines_def shouldWriteFailFastDisclaimer_def)
  have dl: "\<And>s x. Returned (writeLine [] (endRun_disclaimer env s (rebase w l x))) =
      map_outcome (rebase w l) (Returned (writeLine [] (endRun_disclaimer env s x)))"
    by (simp add: endRun_disclaimer_lines dls)
  show ?thesis
    by (simp add: endRun_def counts kf fl
        map_outcome_and_then [of "\<lambda>x. Returned (writeLine [] (endRun_disclaimer env s x))" "rebase w l"
          "\<lambda>x. Returned (writeLine [] (endRun_disclaimer env s x))" for s, OF dl]
        split: option.splits)
qed

lemma emitted_rebase:
  "f (rebase w l st) = map_outcome (rebase w l) (f st) \<Longrightarrow> emitted f (rebase w l st) = emitted f st"
  by (cases "f st") (simp_all add: emitted_def)

lemma run_output_rebase: "run_output env evts (rebase w l st) = run_output env evts st"
proof -
  have e: "\<And>s. endRun env (rebase w l s) = map_outcome (rebase w l) (endRun env s)"
    by (rule endRun_rebase)
  show ?thesis
    unfolding run_output_def
    by (rule emitted_rebase)
      (simp add: consumeAll_rebase map_outcome_and_then [of "endRun env" "rebase w l" "endRun env", OF e])
qed

lemma startRun_rebase:
  "startRun env p st =
     rebase (written st) (listener_log st @ unsubscription st)
       (startRun env p (constructor (watching st) (columns st)))"
  by (simp add: startRun_def constructor_def reset_def rebase_def unsubscription_def Let_def
      writeLine_def stream_columns_or_80_def split: option.splits)

subsection \<open>Running the reporter on concrete events\<close>

text \<open>The definitions unfolded to run the reporter on concrete events.\<close>

lemmas run_eval =
  run_state_def consumeStateChange_def
  writeTestSummary_def writeLogs_def writeFailure_def writeErr_def uncaught_def
  ensureEmptyLine_def stream_write_def is_failure_type_def over_threshold_def
  startRun_def constructor_def reset_def writeLine_def Let_def
  plain_env_def plain_plan_def plain_error_def plain_indent_def blank_event_def
  stats_event_def failed_event_def passed_event_def zero_stats_def two_failed_stats_def
  truthy_def truthy_opt_def newline_def numeral_2_eq_2

lemmas endRun_eval =
  emitted_def endRun_def endRun_counts_def endRun_knownFailures_def endRun_failures_def
  endRun_disclaimer_def shouldWriteFailFastDisclaimer_def writeLines_def
  plur_def plur3_def show_nat.simps digit_char_def apostrophe_def backtick_def

section \<open>The claims\<close>

text \<open>
  C1. In a run (\<^verbatim>\<open>startRun\<close>, then events consumed in arrival order, every call
  returning), the recorded failures are exactly the hook-failed and test-failed events
  in arrival order, an event consumed twice being recorded twice; and when \<^verbatim>\<open>endRun\<close>
  reaches the summary, the failure blocks it writes are the blocks of these events in
  that same order, each followed by its separator.
\<close>

theorem failures_rendered_in_arrival_order:
  assumes "consumeAll env evts (startRun env p prev) = Returned st"
    and "stats st = Some s" and "\<not> (matching st \<and> selectedTests s = 0)"
  shows "failures st = filter is_failure_type evts
       \<and> emitted (endRun env) st =
           map (\<lambda>l. l @ newline) (endRun_counts env s st @ knownFailures_lines env s st) @
           (if filter is_failure_type evts = [] then [] else [newline]) @
           concat (map (\<lambda>e. emitted (writeFailure env e) st @
                          map (\<lambda>l. l @ newline)
                            (separator (last (filter is_failure_type evts))
                               (shouldWriteFailFastDisclaimer s st) e))
                   (filter is_failure_type evts)) @
           map (\<lambda>l. l @ newline) (disclaimer_lines env s st) @ [newline]"
proof -
  have fs: "failures st = filter is_failure_type evts"
    using consumeAll_fields [OF assms(1)] by (simp add: startRun_fields)
  have errs: "\<forall>e \<in> set (failures st). err e \<noteq> None"
    using consumeAll_fields [OF assms(1)] fs by simp
  have "emitted (endRun env) st =
           map (\<lambda>l. l @ newline) (endRun_counts env s st @ knownFailures_lines env s st) @
           (if failures st = [] then [] else [newline]) @
           concat (map (\<lambda>e. emitted (writeFailure env e) st @
                          map (\<lambda>l. l @ newline)
                            (separator (last (failures st)) (shouldWriteFailFastDisclaimer s st) e))
                   (failures st)) @
           map (\<lambda>l. l @ newline) (disclaimer_lines env s st) @ [newline]"
    by (simp add: emitted_endRun [OF assms(2,3) errs] failures_lines_def
        emitted_failures_lines [OF errs] map_separator)
  then show ?thesis
    using fs by simp
qed

theorem failures_rendered_in_arrival_order_witness:
  "emitted (endRun plain_env)
     (run_state [failed_event 2 ''a'', stats_event two_failed_stats, failed_event 2 ''a'',
                 passed_event ''p'' False 5, failed_event 3 ''b'']) =
   map (\<lambda>l. l @ newline)
     [[], ''  2 tests failed'', [],
      ''  a'', [], [], ''  boom'', [], [], [],
      ''  a'', [], [], ''  boom'', [], [], [],
      ''  b'', [], [], ''  boom'',
      []]"
proof -
  let ?evts = "[failed_event 2 ''a'', stats_event two_failed_stats, failed_event 2 ''a'',
                passed_event ''p'' False 5, failed_event 3 ''b'']"
  let ?st0 = "startRun plain_env plain_plan (constructor False None)"
  have st: "consumeAll plain_env ?evts ?st0 =
      Returned (?st0\<lparr>stats := Some two_failed_stats,
       failures := [failed_event 2 ''a'', failed_event 2 ''a'', failed_event 3 ''b''],
       written := map (\<lambda>l. l @ newline) [[], ''  x a boom'', ''  x a boom'', ''  v p'', ''  x b boom''],
       lastLineIsEmpty := False\<rparr>)"
    by (simp add: run_eval)
  have rs: "run_state ?evts = ?st0\<lparr>stats := Some two_failed_stats,
       failures := [failed_event 2 ''a'', failed_event 2 ''a'', failed_event 3 ''b''],
       written := map (\<lambda>l. l @ newline) [[], ''  x a boom'', ''  x a boom'', ''  v p'', ''  x b boom''],
       lastLineIsEmpty := False\<rparr>"
    unfolding run_state_def st by simp
  have h2: "stats (run_state ?evts) = Some two_failed_stats"
    unfolding rs by simp
  have h3: "\<not> (matching (run_state ?evts) \<and> selectedTests two_failed_stats = 0)"
    unfolding rs by (simp add: run_eval)
  from failures_rendered_in_arrival_order [OF st [folded rs] h2 h3]
  show ?thesis
    unfolding rs
    by (simp add: run_eval endRun_eval knownFailures_lines_def disclaimer_lines_def separator_def)
qed

text \<open>
  C2 (amended). \<^verbatim>\<open>consumeStateChange\<close> returns normally for every event whose
  payload has the fields that the case of its type reads (\<open>complete_payload\<close>), provided
  that a worker-finished event which is neither forced nor suppressed by a missing
  import finds per-file stats for its file. An event whose type tag is not among the
  known ones returns normally with the state unchanged, so nothing is written. (As the
  model has it, a present \<^verbatim>\<open>err\<close> and a recorded stats snapshot are complete.)
\<close>

theorem consumeStateChange_returns:
  "(complete_payload evt \<and>
    (etype evt = ''worker-finished'' \<longrightarrow>
       forcedExit evt \<or> testFile evt \<in> filesWithMissingAvaImports st \<or> has_file_stats st evt) \<longrightarrow>
    returned (consumeStateChange env evt st))
   \<and> (etype evt \<notin> set known_types \<longrightarrow> consumeStateChange env evt st = Returned st)"
proof
  show "complete_payload evt \<and>
    (etype evt = ''worker-finished'' \<longrightarrow>
       forcedExit evt \<or> testFile evt \<in> filesWithMissingAvaImports st \<or> has_file_stats st evt) \<longrightarrow>
    returned (consumeStateChange env evt st)"
    unfolding consumeStateChange_def complete_payload_def reads_testFile_def reads_err_def
      has_file_stats_def Let_def
    by (auto simp: returned_writeTestSummary returned_uncaught is_failure_type_def
        truthy_opt_def truthy_def split: option.splits)
next
  show "etype evt \<notin> set known_types \<longrightarrow> consumeStateChange env evt st = Returned st"
    by (simp add: consumeStateChange_def known_types_def)
qed

theorem consumeStateChange_returns_witness:
  "consumeStateChange plain_env (blank_event\<lparr>etype := ''future-event''\<rparr>)
     (startRun plain_env plain_plan (constructor False None)) =
   Returned (startRun plain_env plain_plan (constructor False None))
   \<and> returned (consumeStateChange plain_env (worker_finished_event ''a.js'')
        (state_of (consumeStateChange plain_env
           (stats_event (zero_stats\<lparr>byFile := [''a.js'' \<mapsto> \<lparr>file_declaredTests = 1, file_remainingTests = 0\<rparr>]\<rparr>))
           (startRun plain_env plain_plan (constructor False None)))))"
  using consumeStateChange_returns [where env = plain_env
      and evt = "blank_event\<lparr>etype := ''future-event''\<rparr>"
      and st = "startRun plain_env plain_plan (constructor False None)"]
    consumeStateChange_returns [where env = plain_env
      and evt = "worker_finished_event ''a.js''"
      and st = "state_of (consumeStateChange plain_env
           (stats_event (zero_stats\<lparr>byFile := [''a.js'' \<mapsto> \<lparr>file_declaredTests = 1, file_remainingTests = 0\<rparr>]\<rparr>))
           (startRun plain_env plain_plan (constructor False None)))"]
  by (simp add: known_types_def complete_payload_def reads_testFile_def reads_err_def
      has_file_stats_def worker_finished_event_def run_eval)

text \<open>
  The claim as stated fails at the input it names: a worker-finished event arriving
  before any stats event throws, because \<^verbatim>\<open>fileStats\<close> is \<^verbatim>\<open>null\<close> when
  \<^verbatim>\<open>fileStats.declaredTests\<close> is read.
\<close>

theorem worker_finished_before_stats_throws:
  "consumeStateChange plain_env (worker_finished_event ''a.js'')
     (startRun plain_env plain_plan (constructor False None)) =
   Threw TypeError (startRun plain_env plain_plan (constructor False None))
   \<and> \<not> returned (consumeStateChange plain_env (worker_finished_event ''a.js'')
         (startRun plain_env plain_plan (constructor False None)))"
  by (simp add: worker_finished_event_def run_eval)

text \<open>
  C3 (amended). When no stats snapshot was recorded, \<^verbatim>\<open>endRun\<close> returns after writing
  the "Couldn't find any files to test" line followed by one blank line; it changes
  nothing but the stream and the blank-line flag, so none of the later sections is
  rendered.
\<close>

theorem endRun_without_stats:
  assumes "stats st = None"
  shows "endRun env st =
           Returned (st\<lparr>written := written st @
                        [colors_error env (''  '' @ figures_cross env @ '' Couldn'' @ apostrophe @
                           ''t find any files to test'') @ newline,
                         newline],
                      lastLineIsEmpty := True\<rparr>)"
  using assms by (simp add: endRun_def writeLine_def)

theorem endRun_without_stats_witness:
  "emitted (endRun plain_env) (constructor False None) =
     [''  x Couldn'' @ apostrophe @ ''t find any files to test'' @ newline, newline]"
proof -
  have "stats (constructor False None) = None"
    by (simp add: constructor_def reset_def)
  from endRun_without_stats [OF this, of plain_env]
  show ?thesis by (simp add: emitted_def plain_env_def)
qed

text \<open>
  The claim as stated ("exactly the message and no other output") fails: the output is
  not the message line alone.
\<close>

theorem endRun_without_stats_blank_line:
  "emitted (endRun plain_env) (constructor False None) \<noteq>
     [''  x Couldn'' @ apostrophe @ ''t find any files to test'' @ newline]"
  by (simp add: emitted_def endRun_def writeLine_def constructor_def reset_def)

text \<open>
  C4 (amended). In a run whose \<^verbatim>\<open>endRun\<close> reaches the summary with a stats snapshot
  whose \<^verbatim>\<open>passedKnownFailingTests\<close> is positive, every test-passed event carrying
  \<^verbatim>\<open>knownFailing\<close> is recorded in \<^verbatim>\<open>knownFailures\<close> and listed once per consumption,
  in arrival order, after one blank line, as \<^verbatim>\<open>colors.error\<close> of its prefixed title.
  Its summary line is the error-styled one, not the pass-styled one, and the count lines
  do not depend on the recorded known failures.
\<close>

theorem known_failures_listed:
  assumes "consumeAll env evts (startRun env p prev) = Returned st"
    and "stats st = Some s" and "\<not> (matching st \<and> selectedTests s = 0)"
    and "passedKnownFailingTests s > 0"
  shows "knownFailures st = filter is_known_failure evts
       \<and> emitted (endRun env) st =
           map (\<lambda>l. l @ newline) (endRun_counts env s st) @
           [newline] @
           map (\<lambda>e. ''  '' @ colors_error env (prefixTitle st (testFile e) (title e)) @ newline)
             (filter is_known_failure evts) @
           map (\<lambda>l. l @ newline) (failures_lines env s st @ disclaimer_lines env s st @ [[]])
       \<and> (\<forall>e st1. is_known_failure e \<longrightarrow>
            emitted (writeTestSummary env e) st1 =
              (''  '' @ colors_error env (figures_tick env) @ '' '' @
               colors_error env (prefixTitle st1 (testFile e) (title e)) @ newline) #
              map (\<lambda>l. l @ newline) (writeLogs_lines env e))
       \<and> (\<forall>ks. endRun_counts env s (st\<lparr>knownFailures := ks\<rparr>) = endRun_counts env s st)"
proof -
  have fields: "failures st = filter is_failure_type evts"
    "knownFailures st = filter is_known_failure evts"
    "\<forall>e \<in> set (filter is_failure_type evts). err e \<noteq> None"
    using consumeAll_fields [OF assms(1)] by (simp_all add: startRun_fields)
  have errs: "\<forall>e \<in> set (failures st). err e \<noteq> None"
    using fields(1,3) by simp
  have out: "emitted (endRun env) st =
           map (\<lambda>l. l @ newline) (endRun_counts env s st) @
           [newline] @
           map (\<lambda>e. ''  '' @ colors_error env (prefixTitle st (testFile e) (title e)) @ newline)
             (filter is_known_failure evts) @
           map (\<lambda>l. l @ newline) (failures_lines env s st @ disclaimer_lines env s st @ [[]])"
    using assms(4) fields(2)
    by (simp add: emitted_endRun [OF assms(2,3) errs] knownFailures_lines_def)
  have line: "\<forall>e st1. is_known_failure e \<longrightarrow>
            emitted (writeTestSummary env e) st1 =
              (''  '' @ colors_error env (figures_tick env) @ '' '' @
               colors_error env (prefixTitle st1 (testFile e) (title e)) @ newline) #
              map (\<lambda>l. l @ newline) (writeLogs_lines env e)"
    by (simp add: is_known_failure_def emitted_def writeTestSummary_def is_failure_type_def
        writeLogs_lines writeLine_def)
  have counts: "\<forall>ks. endRun_counts env s (st\<lparr>knownFailures := ks\<rparr>) = endRun_counts env s st"
    by (simp add: endRun_counts_def)
  show ?thesis
    using fields(2) out line counts by blast
qed

theorem known_failures_listed_witness:
  "emitted (endRun plain_env)
     (run_state [stats_event known_failure_stats, passed_event ''k'' True 5,
                 passed_event ''p'' False 5]) =
   map (\<lambda>l. l @ newline) [[], ''  1 test passed'', ''  1 known failure'', [], ''  k'', []]"
proof -
  let ?evts = "[stats_event known_failure_stats, passed_event ''k'' True 5,
                passed_event ''p'' False 5]"
  let ?st0 = "startRun plain_env plain_plan (constructor False None)"
  have st: "consumeAll plain_env ?evts ?st0 =
      Returned (?st0\<lparr>stats := Some known_failure_stats,
       knownFailures := [passed_event ''k'' True 5],
       written := map (\<lambda>l. l @ newline) [[], ''  v k'', ''  v p''],
       lastLineIsEmpty := False\<rparr>)"
    by (simp add: run_eval known_failure_stats_def)
  have rs: "run_state ?evts = ?st0\<lparr>stats := Some known_failure_stats,
       knownFailures := [passed_event ''k'' True 5],
       written := map (\<lambda>l. l @ newline) [[], ''  v k'', ''  v p''],
       lastLineIsEmpty := False\<rparr>"
    unfolding run_state_def st by simp
  have h2: "stats (run_state ?evts) = Some known_failure_stats"
    unfolding rs by simp
  have h3: "\<not> (matching (run_state ?evts) \<and> selectedTests known_failure_stats = 0)"
    unfolding rs by (simp add: run_eval)
  have h4: "passedKnownFailingTests known_failure_stats > 0"
    by (simp add: known_failure_stats_def)
  from known_failures_listed [OF st [folded rs] h2 h3 h4]
  show ?thesis
    unfolding rs
    by (simp add: run_eval endRun_eval failures_lines_def disclaimer_lines_def
        known_failure_stats_def is_known_failure_def)
qed

text \<open>
  The claim as stated ("for every run") fails: the list is gated on the stats snapshot,
  not on the recorded known failures. With no stats event, or with a snapshot whose
  \<^verbatim>\<open>passedKnownFailingTests\<close> is 0, the known failure is not listed.
\<close>

theorem known_failure_not_listed:
  "emitted (endRun plain_env) (run_state [passed_event ''k'' True 5]) =
     [''  x Couldn'' @ apostrophe @ ''t find any files to test'' @ newline, newline]
   \<and> ''  k'' @ newline \<notin> set (emitted (endRun plain_env) (run_state [passed_event ''k'' True 5]))
   \<and> emitted (endRun plain_env) (run_state [passed_event ''k'' True 5, stats_event zero_stats]) =
     [newline, newline]
   \<and> ''  k'' @ newline \<notin>
       set (emitted (endRun plain_env) (run_state [passed_event ''k'' True 5, stats_event zero_stats]))"
  by (simp add: run_eval endRun_eval)

text \<open>
  C5. \<^verbatim>\<open>reset\<close> puts every run field in its empty form, and \<^verbatim>\<open>startRun\<close> on any
  reporter state yields the state that \<^verbatim>\<open>startRun\<close> yields on a freshly constructed
  reporter with the same options, except that the stream already holds the earlier
  output and the listener log the earlier entries. The stored listener is unsubscribed
  before the new subscription is made; after a run N that ended with \<^verbatim>\<open>endRun\<close>, that
  is run N's own listener. Whatever the events of run N+1, what is written for them and
  by \<^verbatim>\<open>endRun\<close> is what a fresh reporter would write: nothing of run N is visible.
\<close>

theorem startRun_resets_state:
  "(failures (reset st) = [] \<and> knownFailures (reset st) = [] \<and>
    filesWithMissingAvaImports (reset st) = {} \<and> stats (reset st) = None \<and>
    \<not> failFastEnabled (reset st) \<and> \<not> matching (reset st) \<and> previousFailures (reset st) = 0 \<and>
    prefixTitle (reset st) = (\<lambda>testFile title. title) \<and> \<not> lastLineIsEmpty (reset st) \<and>
    removePreviousListener (reset st) = None)
   \<and> startRun env p st =
       rebase (written st) (listener_log st @ unsubscription st)
         (startRun env p (constructor (watching st) (columns st)))
   \<and> listener_log (startRun env p st) =
       listener_log st @ unsubscription st @ [Subscribed (status p)]
   \<and> removePreviousListener (startRun env p st) = Some (status p)
   \<and> (consumeAll env evts0 (startRun env p0 st0) = Returned st1 \<and> endRun env st1 = Returned st \<longrightarrow>
       listener_log (startRun env p st) =
         listener_log (startRun env p0 st0) @ [Unsubscribed (status p0), Subscribed (status p)])
   \<and> (\<forall>evts. run_output env evts (startRun env p st) =
               run_output env evts (startRun env p (constructor (watching st) (columns st))))"
proof -
  have two_runs: "consumeAll env evts0 (startRun env p0 st0) = Returned st1 \<and>
      endRun env st1 = Returned st \<longrightarrow>
       listener_log (startRun env p st) =
         listener_log (startRun env p0 st0) @ [Unsubscribed (status p0), Subscribed (status p)]"
  proof
    assume a: "consumeAll env evts0 (startRun env p0 st0) = Returned st1 \<and> endRun env st1 = Returned st"
    from a consumeAll_fields [of env evts0 "startRun env p0 st0" st1]
    have f1: "removePreviousListener st1 = Some (status p0)"
      "listener_log st1 = listener_log (startRun env p0 st0)"
      by (simp_all add: startRun_fields)
    from a endRun_Returned [of env st1 st] obtain ls where "st = writeLines ls st1"
      by blast
    with f1 have f2: "removePreviousListener st = Some (status p0)"
      "listener_log st = listener_log (startRun env p0 st0)"
      by simp_all
    show "listener_log (startRun env p st) =
         listener_log (startRun env p0 st0) @ [Unsubscribed (status p0), Subscribed (status p)]"
      by (simp add: listener_log_startRun unsubscription_def f2)
  qed
  have same: "\<forall>evts. run_output env evts (startRun env p st) =
               run_output env evts (startRun env p (constructor (watching st) (columns st)))"
  proof
    fix evts
    show "run_output env evts (startRun env p st) =
               run_output env evts (startRun env p (constructor (watching st) (columns st)))"
      by (subst startRun_rebase) (rule run_output_rebase)
  qed
  show ?thesis
    using reset_fields [of st] startRun_rebase [of env p st] listener_log_startRun [of env p st]
      startRun_fields(9) [of env p st] two_runs same
    by blast
qed

theorem startRun_resets_state_witness:
  "run_output plain_env [stats_event two_failed_stats, failed_event 3 ''b'']
     (startRun plain_env (plain_plan\<lparr>status := 2\<rparr>) previous_run_state) =
     map (\<lambda>l. l @ newline)
       [''  x b boom'', [], ''  2 tests failed'', [], ''  b'', [], [], ''  boom'', []]
   \<and> listener_log (startRun plain_env (plain_plan\<lparr>status := 2\<rparr>) previous_run_state) =
     [Subscribed 1, Unsubscribed 1, Subscribed 2]
   \<and> failures (startRun plain_env (plain_plan\<lparr>status := 2\<rparr>) previous_run_state) = []"
proof -
  let ?evts0 = "[stats_event (two_failed_stats\<lparr>passedKnownFailingTests := 1\<rparr>),
                 failed_event 2 ''a'', passed_event ''k'' True 5]"
  let ?st0 = "constructor False None"
  have c: "consumeAll plain_env ?evts0 (startRun plain_env plain_plan ?st0) =
      Returned (run_state ?evts0)"
    by (simp add: run_eval)
  have e: "endRun plain_env (run_state ?evts0) = Returned previous_run_state"
    by (simp add: previous_run_state_def run_eval endRun_eval)
  have w: "watching previous_run_state = False" "columns previous_run_state = None"
    by (simp_all add: previous_run_state_def run_eval endRun_eval)
  note t = startRun_resets_state [of previous_run_state plain_env "plain_plan\<lparr>status := 2\<rparr>"
      ?evts0 plain_plan ?st0 "run_state ?evts0"]
  from t c e have log: "listener_log (startRun plain_env (plain_plan\<lparr>status := 2\<rparr>) previous_run_state) =
      listener_log (startRun plain_env plain_plan ?st0) @ [Unsubscribed (status plain_plan),
        Subscribed (status (plain_plan\<lparr>status := 2\<rparr>))]"
    by blast
  from t have out: "run_output plain_env [stats_event two_failed_stats, failed_event 3 ''b'']
     (startRun plain_env (plain_plan\<lparr>status := 2\<rparr>) previous_run_state) =
     run_output plain_env [stats_event two_failed_stats, failed_event 3 ''b'']
       (startRun plain_env (plain_plan\<lparr>status := 2\<rparr>)
          (constructor (watching previous_run_state) (columns previous_run_state)))"
    by blast
  have o: "run_output plain_env [stats_event two_failed_stats, failed_event 3 ''b'']
     (startRun plain_env (plain_plan\<lparr>status := 2\<rparr>) previous_run_state) =
     map (\<lambda>l. l @ newline)
       [''  x b boom'', [], ''  2 tests failed'', [], ''  b'', [], [], ''  boom'', []]"
    unfolding out w
    by (simp add: run_output_def run_eval endRun_eval)
  have l: "listener_log (startRun plain_env (plain_plan\<lparr>status := 2\<rparr>) previous_run_state) =
     [Subscribed 1, Unsubscribed 1, Subscribed 2]"
    unfolding log by (simp add: run_eval)
  show ?thesis
    using o l by (simp add: startRun_fields)
qed

text \<open>
  C6. When fail-fast is enabled and tests remain or files did not finish, the last two
  chunks \<^verbatim>\<open>endRun\<close> writes are the disclaimer line and the closing blank line. With
  remainingTests 2, files 5 and finishedWorkers 3 the text between "is on. " and the
  final full stop is "At least 2 tests were skipped, as well as 2 test files". The
  ", as well as " clause occurs in the text if and only if remainingTests > 0 and
  files > finishedWorkers, and each wording is singular exactly when its count is 1.
\<close>

theorem fail_fast_disclaimer:
  assumes "stats st = Some s" and "\<not> (matching st \<and> selectedTests s = 0)"
    and "\<forall>e \<in> set (failures st). err e \<noteq> None"
    and "failFastEnabled st" and "remainingTests s > 0 \<or> files s > finishedWorkers s"
  shows "(\<exists>pre. emitted (endRun env) st =
            pre @ [''  '' @ colors_information env
                     (backtick @ ''--fail-fast'' @ backtick @ '' is on. '' @ remaining_text s @ ''.'') @ newline,
                   newline])
       \<and> (remainingTests s = 2 \<and> files s = 5 \<and> finishedWorkers s = 3 \<longrightarrow>
            remaining_text s = ''At least 2 tests were skipped, as well as 2 test files'')
       \<and> sublist '', as well as '' (remaining_text s) =
            (remainingTests s > 0 \<and> files s > finishedWorkers s)
       \<and> remaining_text s =
            (if remainingTests s > 0
             then ''At least '' @ show_nat (remainingTests s) @ '' '' @
                  (if remainingTests s = 1 then ''test was'' else ''tests were'') @ '' skipped''
             else []) @
            (if remainingTests s > 0 \<and> files s > finishedWorkers s then '', as well as '' else []) @
            (if files s > finishedWorkers s
             then show_nat (files s - finishedWorkers s) @ '' '' @
                  (if files s - finishedWorkers s = 1 then ''test file'' else ''test files'') @
                  (if remainingTests s = 0
                   then '' '' @ (if files s - finishedWorkers s = 1 then ''was'' else ''were'') @
                        '' skipped''
                   else [])
             else [])"
proof -
  have d: "shouldWriteFailFastDisclaimer s st"
    using assms(4,5) by (simp add: shouldWriteFailFastDisclaimer_def)
  have "emitted (endRun env) st =
          map (\<lambda>l. l @ newline)
            (endRun_counts env s st @ knownFailures_lines env s st @ failures_lines env s st) @
          [''  '' @ colors_information env
              (backtick @ ''--fail-fast'' @ backtick @ '' is on. '' @ remaining_text s @ ''.'') @ newline,
           newline]"
    using d by (simp add: emitted_endRun [OF assms(1-3)] disclaimer_lines_def)
  then have first: "\<exists>pre. emitted (endRun env) st =
            pre @ [''  '' @ colors_information env
                     (backtick @ ''--fail-fast'' @ backtick @ '' is on. '' @ remaining_text s @ ''.'') @ newline,
                   newline]"
    by blast
  have example: "remainingTests s = 2 \<and> files s = 5 \<and> finishedWorkers s = 3 \<longrightarrow>
            remaining_text s = ''At least 2 tests were skipped, as well as 2 test files''"
    by (simp add: remaining_text_shape show_nat.simps digit_char_def)
  show ?thesis
    using first example as_well_as_iff [of s] remaining_text_shape [of s] by blast
qed

theorem fail_fast_disclaimer_witness:
  "emitted (endRun plain_env) fail_fast_state =
     [newline,
      ''  '' @ backtick @ ''--fail-fast'' @ backtick @
        '' is on. At least 2 tests were skipped, as well as 2 test files.'' @ newline,
      newline]"
proof -
  have st: "fail_fast_state =
      (constructor False None)\<lparr>failFastEnabled := True, lastLineIsEmpty := True,
         removePreviousListener := Some 1, written := [newline],
         listener_log := [Subscribed 1],
         stats := Some fail_fast_stats\<rparr>"
    by (simp add: fail_fast_state_def consumeStateChange_def stats_event_def blank_event_def
        startRun_def plain_plan_def constructor_def reset_def Let_def writeLine_def)
  have h1: "stats fail_fast_state =
      Some fail_fast_stats"
    by (simp add: st)
  have h2: "\<not> (matching fail_fast_state \<and>
      selectedTests fail_fast_stats = 0)"
    by (simp add: st constructor_def reset_def fail_fast_stats_def zero_stats_def)
  have h3: "\<forall>e \<in> set (failures fail_fast_state). err e \<noteq> None"
    by (simp add: st constructor_def reset_def)
  have h4: "failFastEnabled fail_fast_state"
    by (simp add: st)
  have h5: "remainingTests fail_fast_stats > 0
     \<or> files fail_fast_stats >
       finishedWorkers fail_fast_stats"
    by (simp add: fail_fast_stats_def)
  have all: "emitted (endRun plain_env) fail_fast_state =
     map (\<lambda>l. l @ newline)
       (endRun_counts plain_env fail_fast_stats fail_fast_state @
        knownFailures_lines plain_env fail_fast_stats fail_fast_state @
        failures_lines plain_env fail_fast_stats fail_fast_state @
        disclaimer_lines plain_env fail_fast_stats fail_fast_state @ [[]])"
    by (rule emitted_endRun [OF h1 h2 h3])
  from fail_fast_disclaimer [OF h1 h2 h3 h4 h5, of plain_env]
  have rt: "remaining_text fail_fast_stats =
      ''At least 2 tests were skipped, as well as 2 test files''"
    by (simp add: fail_fast_stats_def)
  show ?thesis
    using rt unfolding all
    by (simp add: endRun_counts_def knownFailures_lines_def failures_lines_def
        disclaimer_lines_def shouldWriteFailFastDisclaimer_def st fail_fast_stats_def zero_stats_def constructor_def
        reset_def plain_env_def)
qed

text \<open>
  C7. When \<^verbatim>\<open>endRun\<close> reaches the summary (a stats snapshot is recorded and the
  matching check passes) with at least one recorded failure, each carrying its
  \<^verbatim>\<open>err\<close>, one blank line precedes the first failure block, consecutive failure blocks
  are separated by exactly three blank lines, and three blank lines follow the last
  failure block if and only if the fail-fast disclaimer is about to print. The recorded
  failures are distinct event objects, each event being consumed once; the theorem asks
  only that no earlier failure is the object recorded last, which distinct objects
  satisfy (lemma \<open>distinct_refs_butlast\<close>).
\<close>

theorem failure_blocks_spacing:
  assumes "stats st = Some s" and "\<not> (matching st \<and> selectedTests s = 0)"
    and "failures st \<noteq> []" and "\<forall>e \<in> set (failures st). err e \<noteq> None"
    and "\<forall>e \<in> set (butlast (failures st)). ref e \<noteq> ref (last (failures st))"
  shows "emitted (endRun env) st =
           map (\<lambda>l. l @ newline) (endRun_counts env s st @ knownFailures_lines env s st) @
           [newline] @
           concat (map (\<lambda>e. emitted (writeFailure env e) st @ [newline, newline, newline])
                   (butlast (failures st))) @
           emitted (writeFailure env (last (failures st))) st @
           (if shouldWriteFailFastDisclaimer s st then [newline, newline, newline] else []) @
           map (\<lambda>l. l @ newline) (disclaimer_lines env s st) @ [newline]"
  unfolding endRun_failure_blocks [OF assms(1-4)] concat_blocks_distinct [OF assms(3,5)]
  by simp

theorem failure_blocks_spacing_witness:
  "emitted (endRun plain_env)
     (run_state [stats_event two_failed_stats, failed_event 2 ''a'', failed_event 3 ''b'']) =
   map (\<lambda>l. l @ newline)
     [[], ''  2 tests failed'', [],
      ''  a'', [], [], ''  boom'', [], [], [],
      ''  b'', [], [], ''  boom'',
      []]"
proof -
  let ?st = "run_state [stats_event two_failed_stats, failed_event 2 ''a'', failed_event 3 ''b'']"
  have st: "?st = (startRun plain_env plain_plan (constructor False None))
      \<lparr>stats := Some two_failed_stats,
       failures := [failed_event 2 ''a'', failed_event 3 ''b''],
       written := map (\<lambda>l. l @ newline) [[], ''  x a boom'', ''  x b boom''],
       lastLineIsEmpty := False\<rparr>"
    by (simp add: run_eval)
  have h1: "stats ?st = Some two_failed_stats" by (simp add: st)
  have h2: "\<not> (matching ?st \<and> selectedTests two_failed_stats = 0)"
    unfolding st by (simp add: run_eval)
  have h3: "failures ?st \<noteq> []" by (simp add: st)
  have h4: "\<forall>e \<in> set (failures ?st). err e \<noteq> None"
    unfolding st by (simp add: failed_event_def)
  have h5: "\<forall>e \<in> set (butlast (failures ?st)). ref e \<noteq> ref (last (failures ?st))"
    unfolding st by (simp add: failed_event_def blank_event_def)
  from failure_blocks_spacing [OF h1 h2 h3 h4 h5, of plain_env]
  show ?thesis
    unfolding st
    by (simp add: run_eval endRun_eval knownFailures_lines_def disclaimer_lines_def)
qed

text \<open>
  C8 (amended). For an uncaught-exception or unhandled-rejection event that carries its
  \<^verbatim>\<open>testFile\<close> and \<^verbatim>\<open>err\<close>, \<^verbatim>\<open>consumeStateChange\<close> returns and writes, in order: a
  blank line exactly when the flag \<^verbatim>\<open>lastLineIsEmpty\<close> is false, the title line, a blank
  line, the error detail block of \<^verbatim>\<open>writeErr\<close>, and a blank line, which leaves the flag
  set. So of two such events in a row the second writes no leading blank line: a single
  \<^verbatim>\<open>writeLine()\<close> stands between the first event's detail block and the second event's
  title. The flag records whether the last \<^verbatim>\<open>writeLine\<close> call was given the empty
  string and is left alone by a raw \<^verbatim>\<open>stream.write\<close> (lemma
  \<open>lastLineIsEmpty_after_write\<close>); it is not what the stream ends with.
\<close>

theorem uncaught_block:
  assumes "etype evt = ''uncaught-exception'' \<or> etype evt = ''unhandled-rejection''"
    and "testFile evt = Some f" and "err evt = Some e"
    and "etype evt2 = ''uncaught-exception'' \<or> etype evt2 = ''unhandled-rejection''"
    and "testFile evt2 = Some f2" and "err evt2 = Some e2"
  shows "returned (consumeStateChange env evt st)
       \<and> lastLineIsEmpty (state_of (consumeStateChange env evt st))
       \<and> emitted (consumeStateChange env evt) st =
           (if lastLineIsEmpty st then [] else [newline]) @
           [''  '' @ colors_title env (uncaught_wording evt @ '' in '' @ path_relative env f) @ newline,
            newline] @
           emitted (writeErr env evt) st @ [newline]
       \<and> emitted (consumeAll env [evt, evt2]) st =
           (if lastLineIsEmpty st then [] else [newline]) @
           [''  '' @ colors_title env (uncaught_wording evt @ '' in '' @ path_relative env f) @ newline,
            newline] @
           emitted (writeErr env evt) st @ [newline] @
           [''  '' @ colors_title env (uncaught_wording evt2 @ '' in '' @ path_relative env f2) @ newline,
            newline] @
           emitted (writeErr env evt2) st @ [newline]"
proof -
  let ?ls1 = "(if lastLineIsEmpty st then [] else [[]]) @
              [''  '' @ colors_title env (uncaught_wording evt @ '' in '' @ path_relative env f), []] @
              writeErr_lines env (columns st) e"
  let ?st1 = "writeLines (?ls1 @ [[]]) st"
  let ?ls2 = "[''  '' @ colors_title env (uncaught_wording evt2 @ '' in '' @ path_relative env f2), []] @
              writeErr_lines env (columns st) e2 @ [[]]"
  have c1: "consumeStateChange env evt st = Returned ?st1"
    by (simp only: consume_uncaught [OF assms(1)] uncaught_lines [OF assms(2,3)] append_assoc)
  have blank: "lastLineIsEmpty ?st1"
    by (rule lastLineIsEmpty_writeLines_blank)
  have cols: "columns ?st1 = columns st"
    by (rule writeLines_fields)
  have c2: "consumeStateChange env evt2 ?st1 = Returned (writeLines ?ls2 ?st1)"
    by (simp only: consume_uncaught [OF assms(4)] uncaught_lines [OF assms(5,6)] blank cols
        if_True append_Nil)
  have both: "consumeAll env [evt, evt2] st = Returned (writeLines ((?ls1 @ [[]]) @ ?ls2) st)"
    by (simp only: consumeAll.simps and_then.simps c1 c2 writeLines_writeLines)
  have e1: "emitted (consumeStateChange env evt) st = map (\<lambda>l. l @ newline) (?ls1 @ [[]])"
    by (rule emitted_Returned_writeLines) (rule c1)
  have e2: "emitted (consumeAll env [evt, evt2]) st = map (\<lambda>l. l @ newline) ((?ls1 @ [[]]) @ ?ls2)"
    by (rule emitted_Returned_writeLines) (rule both)
  show ?thesis
    using blank
    by (simp add: c1 e1 e2 emitted_writeErr [OF assms(3)] emitted_writeErr [OF assms(6)]
        del: writeLines_simps)
qed

theorem uncaught_block_witness:
  "emitted (consumeAll plain_env [uncaught_event ''a.js'', rejection_event ''b.js''])
     (constructor False None) =
   map (\<lambda>l. l @ newline)
     [[], ''  Uncaught exception in a.js'', [], [], ''  boom'', [],
      ''  Unhandled rejection in b.js'', [], [], ''  boom'', []]"
  using uncaught_block [of "uncaught_event ''a.js''" "''a.js''" plain_error
      "rejection_event ''b.js''" "''b.js''" plain_error plain_env "constructor False None"]
  by (simp add: writeErr_cases writeErr_lines_def uncaught_event_def rejection_event_def
      uncaught_wording_def emitted_def run_eval)

text \<open>
  The claim as stated, about the lines on the stream, fails. After an internal-error
  event the stream ends with three blank lines and the flag is false, so the blank line
  is written again. After raw worker output that ends no line, the flag is still set and
  the title follows the output with no blank line. And when the detail block of the first
  event ends with an empty line (an error with an empty message), four blank lines stand
  between the two titles.
\<close>

theorem uncaught_blank_line_follows_flag:
  "emitted (consumeAll plain_env [internal_error_event, uncaught_event ''b.js''])
     (startRun plain_env plain_plan (constructor False None)) =
     [''  x Internal error when running a.js'' @ newline, ''  Error: boom'' @ newline,
      ''  Error: boom'' @ newline, newline @ newline @ newline,
      newline, ''  Uncaught exception in b.js'' @ newline, newline, newline,
      ''  boom'' @ newline, newline]
   \<and> emitted (consumeAll plain_env [stdout_event ''hello'', uncaught_event ''b.js''])
     (startRun plain_env plain_plan (constructor False None)) =
     [''hello'', ''  Uncaught exception in b.js'' @ newline, newline, newline,
      ''  boom'' @ newline, newline]
   \<and> emitted (consumeAll plain_env [empty_message_event ''a.js'', uncaught_event ''b.js''])
     (startRun plain_env plain_plan (constructor False None)) =
     [''  Uncaught exception in a.js'' @ newline, newline, newline, newline, newline,
      ''  Uncaught exception in b.js'' @ newline, newline, newline,
      ''  boom'' @ newline, newline]"
  by (simp add: emitted_def internal_error_event_def uncaught_event_def stdout_event_def
      empty_message_event_def run_eval)

text \<open>
  C9 (amended). For an internal-error event that carries its \<^verbatim>\<open>err\<close>,
  \<^verbatim>\<open>consumeStateChange\<close> changes nothing but the stream and the blank-line flag, and
  writes four chunks: the cross-mark line naming the file (or the generic label when
  \<^verbatim>\<open>testFile\<close> is falsy), the indented summary, the indented stack, and the chunk of
  \<^verbatim>\<open>writeLine('\n\n')\<close>, which is three newline characters. After the
  newline-terminated stack line that is three blank lines, not two.
\<close>

theorem internal_error_block:
  assumes "etype evt = ''internal-error''" and "err evt = Some e"
  shows "consumeStateChange env evt st =
           Returned (st\<lparr>written := written st @
                        [colors_error env (''  '' @ figures_cross env @
                           (if truthy_opt (testFile evt)
                            then '' Internal error when running '' @ path_relative env (the (testFile evt))
                            else '' Internal error'')) @ newline,
                         indentString env (colors_stack env (summary e)) 2 @ newline,
                         indentString env (colors_errorStack env (stack e)) 2 @ newline,
                         newline @ newline @ newline],
                      lastLineIsEmpty := False\<rparr>)"
  using assms
  by (simp add: consumeStateChange_def Let_def writeLine_def newline_def)

theorem internal_error_block_witness:
  "emitted (consumeStateChange plain_env internal_error_event) (constructor False None) =
     [''  x Internal error when running a.js'' @ newline,
      ''  Error: boom'' @ newline,
      ''  Error: boom'' @ newline,
      newline @ newline @ newline]"
  using internal_error_block [of internal_error_event plain_error plain_env "constructor False None"]
  by (simp add: emitted_def internal_error_event_def blank_event_def plain_error_def plain_env_def
      plain_indent_def truthy_opt_def truthy_def numeral_2_eq_2)

text \<open>
  The claim as stated fails: on a concrete internal-error event the output ends with
  three blank lines.
\<close>

theorem internal_error_three_blank_lines:
  "trailing_blank_lines
     (concat (emitted (consumeStateChange plain_env internal_error_event) (constructor False None))) = 3
   \<and> trailing_blank_lines
     (concat (emitted (consumeStateChange plain_env internal_error_event) (constructor False None))) \<noteq> 2"
  by (simp add: emitted_def consumeStateChange_def Let_def writeLine_def
      internal_error_event_def blank_event_def plain_error_def plain_env_def
      plain_indent_def truthy_opt_def truthy_def numeral_2_eq_2 constructor_def reset_def newline_def
      trailing_blank_lines_def)

text \<open>
  C10. In \<^verbatim>\<open>writeTestSummary\<close>, the line written for a test-passed event that is
  known-failing is the error-styled tick and title and nothing more, whatever the
  duration; for a test-passed event that is not known-failing, the duration suffix is
  appended if and only if the duration is strictly greater than 100, so 100 itself gives
  no suffix. The log lines follow in both cases.
\<close>

theorem writeTestSummary_duration_suffix:
  assumes "etype evt = ''test-passed''"
  shows "emitted (writeTestSummary env evt) st =
           ((if knownFailing evt
             then ''  '' @ colors_error env (figures_tick env) @ '' '' @
                  colors_error env (prefixTitle st (testFile evt) (title evt))
             else ''  '' @ colors_pass env (figures_tick env) @ '' '' @
                  prefixTitle st (testFile evt) (title evt) @
                  (case duration evt of
                     None \<Rightarrow> []
                   | Some ms \<Rightarrow>
                       if ms > 100 then colors_duration env ('' ('' @ prettyMs env ms @ '')'') else []))
            @ newline) # map (\<lambda>l. l @ newline) (writeLogs_lines env evt)"
proof -
  have nf: "\<not> is_failure_type evt"
    using assms by (simp add: is_failure_type_def)
  show ?thesis
    using nf
    by (simp add: emitted_def writeTestSummary_def writeLogs_lines writeLine_def
        over_threshold_def Let_def split: option.splits)
qed

theorem writeTestSummary_duration_suffix_witness:
  "emitted (writeTestSummary plain_env (passed_event ''t'' False 100)) (constructor False None)
     = [''  v t'' @ newline]
   \<and> emitted (writeTestSummary plain_env (passed_event ''t'' False 101)) (constructor False None)
     = [''  v t (101ms)'' @ newline]
   \<and> emitted (writeTestSummary plain_env (passed_event ''t'' True 5000)) (constructor False None)
     = [''  v t'' @ newline]"
  using writeTestSummary_duration_suffix [of "passed_event ''t'' False 100" plain_env "constructor False None"]
    writeTestSummary_duration_suffix [of "passed_event ''t'' False 101" plain_env "constructor False None"]
    writeTestSummary_duration_suffix [of "passed_event ''t'' True 5000" plain_env "constructor False None"]
  by (simp add: passed_event_def blank_event_def plain_env_def constructor_def reset_def
      writeLogs_lines_def show_int_def show_nat.simps digit_char_def)

end
